theory Spec2Isabelle
  imports Main "HOL-Library.Word"
begin

section \<open>Data model\<close>

subsection \<open>Spreadsheet cells\<close>

text \<open>
  \<^verbatim>\<open>xlsx.utils.sheet_to_json(worksheet, { header: 1 })\<close> yields an array of rows, each
  row an array of JavaScript values. The worker applies five operations to a cell value:
  the three strict comparisons with \<^verbatim>\<open>undefined\<close>, \<^verbatim>\<open>null\<close> and \<^verbatim>\<open>''\<close>,
  \<^verbatim>\<open>String(value)\<close> and \<^verbatim>\<open>typeof value\<close>. A value is modelled up to these
  operations. An integral number from \<open>- 2 ^ 53\<close> to \<open>2 ^ 53 - 1\<close> is a signed word of
  54 bits: a double holds each of these integers exactly and \<^verbatim>\<open>String\<close> prints its
  decimal digits. Any other number (a fraction, or an integer outside this range, which
  \<^verbatim>\<open>String\<close> prints rounded or with an exponent) and a \<^verbatim>\<open>Date\<close> object are given by
  the text \<^verbatim>\<open>String\<close> prints for them. A hole of a sparse row reads as
  \<^verbatim>\<open>undefined\<close>. The parser puts a \<^verbatim>\<open>Date\<close> object in a row only under its option
  \<^verbatim>\<open>cellDates\<close>, which the worker does not pass: see \<open>delivered\<close> below.
\<close>

datatype jsval =
    JUndefined
  | JNull
  | JString string
  | JNumber "54 word"
  | JFloat string
  | JBoolean bool
  | JDate string

type_synonym row = "jsval list"

text \<open>\<^verbatim>\<open>row[colIndex]\<close>: reading past the end of a JavaScript array gives \<^verbatim>\<open>undefined\<close>.\<close>

definition cell_at :: "row \<Rightarrow> nat \<Rightarrow> jsval" where
  "cell_at r c = (if c < length r then r ! c else JUndefined)"

definition digit_char :: "nat \<Rightarrow> char" where
  "digit_char d = ''0123456789'' ! d"

fun string_of_nat :: "nat \<Rightarrow> string" where
  "string_of_nat n =
     (if n < 10 then [digit_char n] else string_of_nat (n div 10) @ [digit_char (n mod 10)])"

declare string_of_nat.simps [simp del]

text \<open>
  The decimal numeral of an integer. It is what \<^verbatim>\<open>String\<close> prints for an integer a
  double holds exactly and that is below \<open>10 ^ 21\<close> in magnitude; \<open>String\<close> below
  applies it to the integers of 54-bit words only.
\<close>

definition string_of_int :: "int \<Rightarrow> string" where
  "string_of_int i = (if i < 0 then CHR ''-'' # string_of_nat (nat (- i)) else string_of_nat (nat i))"

text \<open>\<^verbatim>\<open>String(value)\<close>.\<close>

fun String :: "jsval \<Rightarrow> string" where
  "String JUndefined = ''undefined''"
| "String JNull = ''null''"
| "String (JString s) = s"
| "String (JNumber n) = string_of_int (sint n)"
| "String (JFloat s) = s"
| "String (JBoolean b) = (if b then ''true'' else ''false'')"
| "String (JDate s) = s"

text \<open>\<^verbatim>\<open>typeof value\<close>.\<close>

fun typeof :: "jsval \<Rightarrow> string" where
  "typeof JUndefined = ''undefined''"
| "typeof JNull = ''object''"
| "typeof (JString s) = ''string''"
| "typeof (JNumber n) = ''number''"
| "typeof (JFloat s) = ''number''"
| "typeof (JBoolean b) = ''boolean''"
| "typeof (JDate s) = ''object''"

text \<open>
  The guard of the inner loop,
  \<^verbatim>\<open>value !== undefined && value !== null && value !== ''\<close>.
\<close>

definition materialized :: "jsval \<Rightarrow> bool" where
  "materialized v = (v \<noteq> JUndefined \<and> v \<noteq> JNull \<and> v \<noteq> JString '''')"

subsection \<open>Worksheet cells\<close>

text \<open>
  The kinds of cell of a worksheet, as \<^verbatim>\<open>xlsx.readFile(fileUrl)\<close> reads them. The
  worker passes no options, so no \<^verbatim>\<open>cellDates\<close>: a date cell is a number cell with a
  date format, whose value is the serial number of the date (a fraction when it has a
  time of day).
\<close>

datatype sheet_cell =
    EmptyCell
  | TextCell string
  | NumberCell "54 word"
  | FractionCell string
  | BooleanCell bool
  | DateCell "54 word"
  | DateTimeCell string
  | ErrorCell nat

text \<open>
  The value \<^verbatim>\<open>sheet_to_json(worksheet, { header: 1 })\<close> puts in the row for a cell: the
  raw value; an empty cell leaves a hole; an error cell gives \<^verbatim>\<open>null\<close> when its code
  is 0 and a hole otherwise.
\<close>

fun delivered :: "sheet_cell \<Rightarrow> jsval" where
  "delivered EmptyCell = JUndefined"
| "delivered (TextCell s) = JString s"
| "delivered (NumberCell n) = JNumber n"
| "delivered (FractionCell s) = JFloat s"
| "delivered (BooleanCell b) = JBoolean b"
| "delivered (DateCell n) = JNumber n"
| "delivered (DateTimeCell s) = JFloat s"
| "delivered (ErrorCell code) = (if code = 0 then JNull else JUndefined)"

text \<open>The cells that hold a date or a date and time.\<close>

fun temporal :: "sheet_cell \<Rightarrow> bool" where
  "temporal (DateCell n) = True"
| "temporal (DateTimeCell s) = True"
| "temporal c = False"

subsection \<open>The job record store and the queue\<close>

datatype FileProcessingStatus = PENDING | IN_PROGRESS | COMPLETED | FAILED | CANCELLED

text \<open>
  A row of the \<^verbatim>\<open>fileProcessing\<close> table, with the columns the worker and the retry
  operation read or write. Timestamps are natural numbers.
\<close>

record file_processing =
  userId :: nat
  fileUrl :: string
  status :: FileProcessingStatus
  retryCount :: nat
  totalRows :: "nat option"
  processedRows :: "nat option"
  errorMessage :: "string option"
  completedAt :: "nat option"

text \<open>
  An element of the worker's \<^verbatim>\<open>processedData\<close> array, and a row of the table of the
  same name. \<^verbatim>\<open>columnName\<close> is \<^verbatim>\<open>headers[colIndex]\<close>, a cell of the header row
  (the cast \<^verbatim>\<open>data[0] as string[]\<close> checks nothing at run time); \<open>value_str\<close> is
  the field \<^verbatim>\<open>value\<close>.
\<close>

record processed_data =
  fileProcessingId :: nat
  rowNumber :: nat
  columnName :: jsval
  value_str :: string
  dataType :: string

text \<open>
  \<^verbatim>\<open>ExcelJobData\<close>. The identifier is the one \<^verbatim>\<open>parseInt(fileProcessingId)\<close> reads
  back from \<^verbatim>\<open>fileProcessing.id.toString()\<close>.
\<close>

record excel_job_data =
  jd_fileUrl :: string
  jd_fileProcessingId :: nat
  jd_retryCount :: "nat option"

text \<open>The two tables and the jobs handed to \<^verbatim>\<open>queue.add\<close>, in order.\<close>

record world =
  jobs :: "nat \<rightharpoonup> file_processing"
  records :: "processed_data list"
  queue :: "(string \<times> excel_job_data) list"

subsection \<open>Failures of the collaborators\<close>

text \<open>A thrown value: an \<^verbatim>\<open>Error\<close> with its message, or anything else.\<close>

datatype thrown = Error string | NonError

text \<open>The places where the modelled code awaits the store, the queue or the parser.\<close>

datatype call_site =
    SetInProgress
  | SetTotalRows
  | Checkpoint nat
  | CreateMany nat
  | MarkCompleted
  | MarkFailed
  | StatusFindFirst
  | ClearFindFirst
  | DeleteMany
  | RetryFindFirst
  | ResetPending
  | AddJob

text \<open>
  One execution's environment: what reading and parsing the file at a location gives
  (the rows of the first sheet, or a thrown value), which awaited calls raise and what,
  and the clock.
\<close>

record env =
  read_sheet :: "string \<Rightarrow> thrown + row list"
  store_fault :: "call_site \<Rightarrow> thrown option"
  now :: nat

definition NO_DATA_FOUND :: string where
  "NO_DATA_FOUND = ''No data found in the Excel file''"

definition FILE_NOT_FOUND :: string where
  "FILE_NOT_FOUND = ''File not found''"

text \<open>The message of the error Prisma raises when the row to update does not exist.\<close>

definition RECORD_NOT_FOUND :: string where
  "RECORD_NOT_FOUND = ''Record to update not found.''"

section \<open>The store's operations\<close>

text \<open>\<^verbatim>\<open>prisma.fileProcessing.update({ where: { id }, data })\<close>.\<close>

definition fp_update ::
  "env \<Rightarrow> call_site \<Rightarrow> nat \<Rightarrow> (file_processing \<Rightarrow> file_processing) \<Rightarrow> world \<Rightarrow> thrown + world" where
  "fp_update e site fid f w =
     (case store_fault e site of
        Some t \<Rightarrow> Inl t
      | None \<Rightarrow>
          (case jobs w fid of
             None \<Rightarrow> Inl (Error RECORD_NOT_FOUND)
           | Some j \<Rightarrow> Inr (w\<lparr>jobs := (jobs w)(fid \<mapsto> f j)\<rparr>)))"

text \<open>\<^verbatim>\<open>prisma.processedData.createMany({ data: batch })\<close>.\<close>

definition createMany :: "env \<Rightarrow> call_site \<Rightarrow> processed_data list \<Rightarrow> world \<Rightarrow> thrown + world" where
  "createMany e site batch w =
     (case store_fault e site of
        Some t \<Rightarrow> Inl t
      | None \<Rightarrow> Inr (w\<lparr>records := records w @ batch\<rparr>))"

text \<open>\<^verbatim>\<open>prisma.fileProcessing.findFirst({ where: { id, userId } })\<close>.\<close>

definition findFirst :: "env \<Rightarrow> call_site \<Rightarrow> nat \<Rightarrow> nat \<Rightarrow> world \<Rightarrow> thrown + file_processing option" where
  "findFirst e site fid uid w =
     (case store_fault e site of
        Some t \<Rightarrow> Inl t
      | None \<Rightarrow>
          (case jobs w fid of
             None \<Rightarrow> Inr None
           | Some j \<Rightarrow> if userId j = uid then Inr (Some j) else Inr None))"

section \<open>The worker: \<^verbatim>\<open>BullJobQueue.handleExcelJob\<close>\<close>

text \<open>The inner loop over \<^verbatim>\<open>colIndex\<close>, for one row.\<close>

function col_loop ::
  "nat \<Rightarrow> row \<Rightarrow> row \<Rightarrow> nat \<Rightarrow> nat \<Rightarrow> processed_data list \<Rightarrow> processed_data list" where
  "col_loop fid headers r rowIndex colIndex processedData =
     (if colIndex < length headers then
        (let columnName = headers ! colIndex;
             v = cell_at r colIndex
         in col_loop fid headers r rowIndex (colIndex + 1)
              (if materialized v
               then processedData @
                 [\<lparr>fileProcessingId = fid, rowNumber = rowIndex + 1, columnName = columnName,
                   value_str = String v, dataType = typeof v\<rparr>]
               else processedData))
      else processedData)"
  by pat_completeness auto
termination
  by (relation "measure (\<lambda>(fid, headers, r, rowIndex, colIndex, processedData). length headers - colIndex)") auto

declare col_loop.simps [simp del]

text \<open>
  The outer loop over \<^verbatim>\<open>rowIndex\<close>, with the progress write every ten rows. A raise
  leaves the loop with the store as it is at that moment.
\<close>

function row_loop ::
  "env \<Rightarrow> nat \<Rightarrow> row \<Rightarrow> row list \<Rightarrow> nat \<Rightarrow> processed_data list \<Rightarrow> nat \<Rightarrow> world
     \<Rightarrow> (thrown + processed_data list \<times> nat) \<times> world" where
  "row_loop e fid headers data rowIndex processedData processedCount w =
     (if rowIndex < length data then
        (let r = data ! rowIndex;
             processedData' = col_loop fid headers r rowIndex 0 processedData;
             processedCount' = processedCount + 1
         in if processedCount' mod 10 = 0 then
              (case fp_update e (Checkpoint processedCount') fid
                      (\<lambda>j. j\<lparr>processedRows := Some processedCount'\<rparr>) w of
                 Inl t \<Rightarrow> (Inl t, w)
               | Inr w' \<Rightarrow>
                   row_loop e fid headers data (rowIndex + 1) processedData' processedCount' w')
            else row_loop e fid headers data (rowIndex + 1) processedData' processedCount' w)
      else (Inr (processedData, processedCount), w))"
  by pat_completeness auto
termination
  by (relation "measure (\<lambda>(e, fid, headers, data, rowIndex, processedData, processedCount, w).
        length data - rowIndex)") auto

declare row_loop.simps [simp del]

text \<open>The batch insert, \<^verbatim>\<open>batchSize = 100\<close>.\<close>

function batch_loop :: "env \<Rightarrow> processed_data list \<Rightarrow> nat \<Rightarrow> world \<Rightarrow> (thrown + unit) \<times> world" where
  "batch_loop e processedData i w =
     (if i < length processedData then
        (let batch = take 100 (drop i processedData)
         in case createMany e (CreateMany i) batch w of
              Inl t \<Rightarrow> (Inl t, w)
            | Inr w' \<Rightarrow> batch_loop e processedData (i + 100) w')
      else (Inr (), w))"
  by pat_completeness auto
termination
  by (relation "measure (\<lambda>(e, processedData, i, w). length processedData - i)") auto

declare batch_loop.simps [simp del]

text \<open>The body of the \<^verbatim>\<open>try\<close> block; \<^verbatim>\<open>Inr\<close> carries \<^verbatim>\<open>processedCount\<close>.\<close>

definition handle_try :: "env \<Rightarrow> excel_job_data \<Rightarrow> world \<Rightarrow> (thrown + nat) \<times> world" where
  "handle_try e jd w =
     (let fid = jd_fileProcessingId jd;
          rc = (case jd_retryCount jd of None \<Rightarrow> 0 | Some n \<Rightarrow> n)
      in case fp_update e SetInProgress fid (\<lambda>j. j\<lparr>status := IN_PROGRESS, retryCount := rc\<rparr>) w of
           Inl t \<Rightarrow> (Inl t, w)
         | Inr w1 \<Rightarrow>
             (case read_sheet e (jd_fileUrl jd) of
                Inl t \<Rightarrow> (Inl t, w1)
              | Inr data \<Rightarrow>
                  if length data = 0 then (Inl (Error NO_DATA_FOUND), w1)
                  else
                    (let headers = data ! 0;
                         total = length data - 1
                     in case fp_update e SetTotalRows fid (\<lambda>j. j\<lparr>totalRows := Some total\<rparr>) w1 of
                          Inl t \<Rightarrow> (Inl t, w1)
                        | Inr w2 \<Rightarrow>
                            (case row_loop e fid headers data 1 [] 0 w2 of
                               (Inl t, w3) \<Rightarrow> (Inl t, w3)
                             | (Inr (processedData, processedCount), w3) \<Rightarrow>
                                 (case batch_loop e processedData 0 w3 of
                                    (Inl t, w4) \<Rightarrow> (Inl t, w4)
                                  | (Inr u, w4) \<Rightarrow>
                                      (case fp_update e MarkCompleted fid
                                              (\<lambda>j. j\<lparr>status := COMPLETED,
                                                     processedRows := Some processedCount,
                                                     completedAt := Some (now e)\<rparr>) w4 of
                                         Inl t \<Rightarrow> (Inl t, w4)
                                       | Inr w5 \<Rightarrow> (Inr processedCount, w5)))))))"

text \<open>\<^verbatim>\<open>error instanceof Error ? error.message : 'Unknown error'\<close>.\<close>

fun error_message :: "thrown \<Rightarrow> string" where
  "error_message (Error m) = m"
| "error_message NonError = ''Unknown error''"

text \<open>
  The handler: the \<^verbatim>\<open>try\<close> block, and the \<^verbatim>\<open>catch\<close> block that marks the job failed
  and throws the error again. \<^verbatim>\<open>Inr n\<close> is the return value
  \<^verbatim>\<open>{ success: true, processedCount: n }\<close>. A raise of the update in the \<^verbatim>\<open>catch\<close>
  block leaves the handler in place of the first error.
\<close>

definition handleExcelJob :: "env \<Rightarrow> excel_job_data \<Rightarrow> world \<Rightarrow> (thrown + nat) \<times> world" where
  "handleExcelJob e jd w =
     (case handle_try e jd w of
        (Inr processedCount, w') \<Rightarrow> (Inr processedCount, w')
      | (Inl t, w') \<Rightarrow>
          (case fp_update e MarkFailed (jd_fileProcessingId jd)
                  (\<lambda>j. j\<lparr>status := FAILED, errorMessage := Some (error_message t)\<rparr>) w' of
             Inl t' \<Rightarrow> (Inl t', w')
           | Inr w'' \<Rightarrow> (Inl t, w'')))"

section \<open>The retry operation\<close>

text \<open>
  The request as the controller reads it: the authenticated user's identifier when there
  is one, and the route parameter \<^verbatim>\<open>:id\<close> as \<^verbatim>\<open>parseInt\<close> reads it.
\<close>

record request =
  user :: "nat option"
  params_id :: nat

text \<open>
  A response: \<^verbatim>\<open>res.status(code).json({ success: false, message })\<close>, or
  \<^verbatim>\<open>response_success\<close> with the queue's job identifier and the file's identifier.
\<close>

datatype response = JsonError nat string | ResponseSuccess nat nat

text \<open>
  \<^verbatim>\<open>FileProcessingService.getFileStatus\<close>. The returned object copies the columns of the
  row found; the controller reads its \<^verbatim>\<open>status\<close>.
\<close>

definition getFileStatus :: "env \<Rightarrow> nat \<Rightarrow> nat \<Rightarrow> world \<Rightarrow> thrown + file_processing option" where
  "getFileStatus e fid uid w =
     (case findFirst e StatusFindFirst fid uid w of
        Inl t \<Rightarrow> Inl t
      | Inr None \<Rightarrow> Inr None
      | Inr (Some fileProcessing) \<Rightarrow> Inr (Some fileProcessing))"

text \<open>\<^verbatim>\<open>FileProcessingService.clearProcessedData\<close>.\<close>

definition clearProcessedData :: "env \<Rightarrow> nat \<Rightarrow> nat \<Rightarrow> world \<Rightarrow> (thrown + unit) \<times> world" where
  "clearProcessedData e fid uid w =
     (case findFirst e ClearFindFirst fid uid w of
        Inl t \<Rightarrow> (Inl t, w)
      | Inr None \<Rightarrow> (Inl (Error FILE_NOT_FOUND), w)
      | Inr (Some fileProcessing) \<Rightarrow>
          (case store_fault e DeleteMany of
             Some t \<Rightarrow> (Inl t, w)
           | None \<Rightarrow> (Inr (), w\<lparr>records := filter (\<lambda>r. fileProcessingId r \<noteq> fid) (records w)\<rparr>)))"

text \<open>
  \<^verbatim>\<open>BullJobQueue.addJob\<close>. The identifier the queue gives a job is its position among
  the jobs added.
\<close>

definition addJob :: "env \<Rightarrow> string \<Rightarrow> excel_job_data \<Rightarrow> world \<Rightarrow> (thrown + nat) \<times> world" where
  "addJob e name jd w =
     (case store_fault e AddJob of
        Some t \<Rightarrow> (Inl t, w)
      | None \<Rightarrow> (Inr (length (queue w) + 1), w\<lparr>queue := queue w @ [(name, jd)]\<rparr>))"

text \<open>\<^verbatim>\<open>FileProcessingService.retryFileProcessing\<close>.\<close>

definition retryFileProcessing :: "env \<Rightarrow> nat \<Rightarrow> nat \<Rightarrow> world \<Rightarrow> (thrown + nat \<times> nat) \<times> world" where
  "retryFileProcessing e fid uid w =
     (case findFirst e RetryFindFirst fid uid w of
        Inl t \<Rightarrow> (Inl t, w)
      | Inr None \<Rightarrow> (Inl (Error FILE_NOT_FOUND), w)
      | Inr (Some fileProcessing) \<Rightarrow>
          (case fp_update e ResetPending fid
                  (\<lambda>j. j\<lparr>status := PENDING, errorMessage := None, totalRows := None,
                         processedRows := None, completedAt := None\<rparr>) w of
             Inl t \<Rightarrow> (Inl t, w)
           | Inr w1 \<Rightarrow>
               (case addJob e ''process-excel-retry''
                       \<lparr>jd_fileUrl = fileUrl fileProcessing, jd_fileProcessingId = fid,
                        jd_retryCount = None\<rparr> w1 of
                  (Inl t, w2) \<Rightarrow> (Inl t, w2)
                | (Inr jobId, w2) \<Rightarrow> (Inr (jobId, fid), w2))))"

text \<open>The controller, \<^verbatim>\<open>retryFileProcessing\<close> of \<^verbatim>\<open>FileController.ts\<close>.\<close>

definition retryFileProcessing_controller :: "env \<Rightarrow> request \<Rightarrow> world \<Rightarrow> response \<times> world" where
  "retryFileProcessing_controller e req w =
     (case user req of
        None \<Rightarrow> (JsonError 401 ''Authentication required'', w)
      | Some uid \<Rightarrow>
          (case getFileStatus e (params_id req) uid w of
             Inl t \<Rightarrow> (JsonError 500 ''Internal server error'', w)
           | Inr None \<Rightarrow> (JsonError 404 FILE_NOT_FOUND, w)
           | Inr (Some fileStatus) \<Rightarrow>
               if status fileStatus \<noteq> FAILED
               then (JsonError 400 ''File can only be retried if it failed'', w)
               else
                 (case clearProcessedData e (params_id req) uid w of
                    (Inl t, w1) \<Rightarrow> (JsonError 500 ''Internal server error'', w1)
                  | (Inr u, w1) \<Rightarrow>
                      (case retryFileProcessing e (params_id req) uid w1 of
                         (Inl t, w2) \<Rightarrow> (JsonError 500 ''Internal server error'', w2)
                       | (Inr (jobId, fid), w2) \<Rightarrow> (ResponseSuccess jobId fid, w2)))))"

section \<open>The cells of a sheet\<close>

text \<open>
  The positions of the cells of the data rows under the header's columns, row by row:
  the row index in \<^verbatim>\<open>data\<close> (the header is row 0) and the column index. The cells
  the worker's guard lets through are the non-blank ones.
\<close>

definition cell_positions :: "row \<Rightarrow> row list \<Rightarrow> (nat \<times> nat) list" where
  "cell_positions headers data = List.product [1..<length data] [0..<length headers]"

definition nonblank :: "row list \<Rightarrow> nat \<times> nat \<Rightarrow> bool" where
  "nonblank data p = materialized (cell_at (data ! fst p) (snd p))"

definition nonblank_cells :: "row \<Rightarrow> row list \<Rightarrow> (nat \<times> nat) list" where
  "nonblank_cells headers data = filter (nonblank data) (cell_positions headers data)"

text \<open>The object the worker pushes for the cell at a position.\<close>

definition record_at :: "nat \<Rightarrow> row \<Rightarrow> row list \<Rightarrow> nat \<times> nat \<Rightarrow> processed_data" where
  "record_at fid headers data p =
     \<lparr>fileProcessingId = fid, rowNumber = fst p + 1, columnName = headers ! snd p,
      value_str = String (cell_at (data ! fst p) (snd p)),
      dataType = typeof (cell_at (data ! fst p) (snd p))\<rparr>"

text \<open>
  Two states of the store that differ at most in the \<^verbatim>\<open>processedRows\<close> of one job:
  what the progress writes may change.
\<close>

definition progress_only :: "nat \<Rightarrow> world \<Rightarrow> world \<Rightarrow> bool" where
  "progress_only fid w w' =
     (records w' = records w \<and> queue w' = queue w \<and>
      (\<forall>k. k \<noteq> fid \<longrightarrow> jobs w' k = jobs w k) \<and>
      (case jobs w fid of
         None \<Rightarrow> jobs w' fid = None
       | Some j \<Rightarrow> (\<exists>p. jobs w' fid = Some (j\<lparr>processedRows := p\<rparr>))))"

section \<open>Concrete inputs\<close>

text \<open>An execution in which no collaborator raises, on a file with the given rows.\<close>

definition quiet_env :: "row list \<Rightarrow> env" where
  "quiet_env d = \<lparr>read_sheet = (\<lambda>u. Inr d), store_fault = (\<lambda>s. None), now = 7\<rparr>"

text \<open>An execution in which the awaited call at one site raises.\<close>

definition faulty_env :: "row list \<Rightarrow> call_site \<Rightarrow> thrown \<Rightarrow> env" where
  "faulty_env d site t =
     \<lparr>read_sheet = (\<lambda>u. Inr d), store_fault = (\<lambda>s. if s = site then Some t else None), now = 7\<rparr>"

definition job_pending :: file_processing where
  "job_pending =
     \<lparr>userId = 1, fileUrl = ''uploads/1_people.xlsx'', status = PENDING, retryCount = 0,
      totalRows = None, processedRows = None, errorMessage = None, completedAt = None\<rparr>"

definition w_pending :: world where
  "w_pending = \<lparr>jobs = [1 \<mapsto> job_pending], records = [], queue = []\<rparr>"

definition jd1 :: excel_job_data where
  "jd1 = \<lparr>jd_fileUrl = ''uploads/1_people.xlsx'', jd_fileProcessingId = 1, jd_retryCount = None\<rparr>"

text \<open>Header \<^verbatim>\<open>[ID, Name]\<close> and the rows \<^verbatim>\<open>[1, "Alice"]\<close>, \<^verbatim>\<open>["", "Bob"]\<close>.\<close>

definition sheet_people :: "row list" where
  "sheet_people =
     [[JString ''ID'', JString ''Name''],
      [JNumber 1, JString ''Alice''],
      [JString '''', JString ''Bob'']]"

definition sheet_header_only :: "row list" where
  "sheet_header_only = [[JString ''ID'', JString ''Name'']]"

text \<open>Header \<^verbatim>\<open>[When]\<close> and one data row with the date 1 January 2024.\<close>

definition cells_dates :: "sheet_cell list list" where
  "cells_dates = [[TextCell ''When''], [DateCell 45292]]"

definition sheet_dates :: "row list" where
  "sheet_dates = map (map delivered) cells_dates"

definition sheet_one_cell :: "row list" where
  "sheet_one_cell = [[JString ''A''], [JString ''x'']]"

text \<open>Header \<^verbatim>\<open>[N]\<close> and ten data rows \<^verbatim>\<open>[1]\<close>.\<close>

definition sheet_ten_rows :: "row list" where
  "sheet_ten_rows =
     [[JString ''N''],
      [JNumber 1], [JNumber 1], [JNumber 1], [JNumber 1], [JNumber 1],
      [JNumber 1], [JNumber 1], [JNumber 1], [JNumber 1], [JNumber 1]]"

definition outage :: thrown where
  "outage = Error ''Can not reach database server''"

definition job_failed :: file_processing where
  "job_failed =
     \<lparr>userId = 1, fileUrl = ''uploads/1_people.xlsx'', status = FAILED, retryCount = 0,
      totalRows = Some 2, processedRows = None,
      errorMessage = Some ''Can not reach database server'', completedAt = None\<rparr>"

definition stale_record :: processed_data where
  "stale_record =
     \<lparr>fileProcessingId = 1, rowNumber = 2, columnName = JString ''ID'', value_str = ''1'',
      dataType = ''number''\<rparr>"

definition w_failed :: world where
  "w_failed = \<lparr>jobs = [1 \<mapsto> job_failed], records = [stale_record], queue = []\<rparr>"

definition w_completed :: world where
  "w_completed =
     \<lparr>jobs = [1 \<mapsto> job_failed\<lparr>status := COMPLETED, errorMessage := None, completedAt := Some 5\<rparr>],
      records = [stale_record], queue = []\<rparr>"

definition req1 :: request where
  "req1 = \<lparr>user = Some 1, params_id = 1\<rparr>"

definition people_records :: "processed_data list" where
  "people_records =
     [\<lparr>fileProcessingId = 1, rowNumber = 2, columnName = JString ''ID'', value_str = ''1'',
       dataType = ''number''\<rparr>,
      \<lparr>fileProcessingId = 1, rowNumber = 2, columnName = JString ''Name'', value_str = ''Alice'',
       dataType = ''string''\<rparr>,
      \<lparr>fileProcessingId = 1, rowNumber = 3, columnName = JString ''Name'', value_str = ''Bob'',
       dataType = ''string''\<rparr>]"

definition date_records :: "processed_data list" where
  "date_records =
     [\<lparr>fileProcessingId = 1, rowNumber = 2, columnName = JString ''When'', value_str = ''45292'',
       dataType = ''number''\<rparr>]"

definition w_people_done :: world where
  "w_people_done =
     \<lparr>jobs = [1 \<mapsto> job_pending\<lparr>status := COMPLETED, totalRows := Some 2, processedRows := Some 2,
                             completedAt := Some 7\<rparr>],
      records = people_records, queue = []\<rparr>"

definition w_header_only_done :: world where
  "w_header_only_done =
     \<lparr>jobs = [1 \<mapsto> job_pending\<lparr>status := COMPLETED, totalRows := Some 0, processedRows := Some 0,
                             completedAt := Some 7\<rparr>],
      records = [], queue = []\<rparr>"

text \<open>The job after an execution on ten data rows whose progress write raised.\<close>

definition job_checkpoint_failed :: file_processing where
  "job_checkpoint_failed =
     \<lparr>userId = 1, fileUrl = ''uploads/1_people.xlsx'', status = FAILED, retryCount = 0,
      totalRows = Some 10, processedRows = None,
      errorMessage = Some ''Can not reach database server'', completedAt = None\<rparr>"

text \<open>After a first delivery whose batch insert raised, and after the second delivery.\<close>

definition w_outage :: world where
  "w_outage =
     \<lparr>jobs = [1 \<mapsto> job_pending\<lparr>status := FAILED, totalRows := Some 2,
                             errorMessage := Some ''Can not reach database server''\<rparr>],
      records = [], queue = []\<rparr>"

definition w_stale_error :: world where
  "w_stale_error =
     \<lparr>jobs = [1 \<mapsto> job_pending\<lparr>status := COMPLETED, totalRows := Some 2, processedRows := Some 2,
                             errorMessage := Some ''Can not reach database server'',
                             completedAt := Some 7\<rparr>],
      records = people_records, queue = []\<rparr>"

text \<open>
  After a first delivery whose final update raised, when the records are already
  inserted, and after the second delivery.
\<close>

definition one_cell_record :: processed_data where
  "one_cell_record =
     \<lparr>fileProcessingId = 1, rowNumber = 2, columnName = JString ''A'', value_str = ''x'',
      dataType = ''string''\<rparr>"

definition w_flushed :: world where
  "w_flushed =
     \<lparr>jobs = [1 \<mapsto> job_pending\<lparr>status := FAILED, totalRows := Some 1,
                             errorMessage := Some ''Can not reach database server''\<rparr>],
      records = [one_cell_record], queue = []\<rparr>"

definition w_duplicated :: world where
  "w_duplicated =
     \<lparr>jobs = [1 \<mapsto> job_pending\<lparr>status := COMPLETED, totalRows := Some 1, processedRows := Some 1,
                             errorMessage := Some ''Can not reach database server'',
                             completedAt := Some 7\<rparr>],
      records = [one_cell_record, one_cell_record], queue = []\<rparr>"

text \<open>After the retry of the failed job.\<close>

definition w_retried :: world where
  "w_retried =
     \<lparr>jobs = [1 \<mapsto> job_failed\<lparr>status := PENDING, errorMessage := None, totalRows := None,
                            processedRows := None, completedAt := None\<rparr>],
      records = [],
      queue = [(''process-excel-retry'',
                \<lparr>jd_fileUrl = ''uploads/1_people.xlsx'', jd_fileProcessingId = 1,
                 jd_retryCount = None\<rparr>)]\<rparr>"

section \<open>The loops\<close>

lemma col_loop_eq:
  "col_loop fid headers (data ! ri) ri ci pd =
     pd @ map (record_at fid headers data)
            (filter (nonblank data) (map (Pair ri) [ci..<length headers]))"
proof (induction fid headers "data ! ri" ri ci pd rule: col_loop.induct)
  case (1 fid headers rowIndex colIndex processedData)
  show ?case
  proof (cases "colIndex < length headers")
    case True
    then have up: "[colIndex..<length headers] = colIndex # [colIndex + 1..<length headers]"
      by (simp add: upt_conv_Cons)
    show ?thesis
      using True "1.hyps"[OF True refl refl]
      by (subst col_loop.simps) (simp add: up record_at_def nonblank_def Let_def)
  next
    case False
    then show ?thesis
      by (subst col_loop.simps) simp
  qed
qed

lemma row_loop_result:
  "row_loop e fid headers data ri pd pc w = (Inr (pd', pc'), w') \<Longrightarrow>
     pd' = pd @ map (record_at fid headers data)
                 (filter (nonblank data) (List.product [ri..<length data] [0..<length headers]))
     \<and> pc' = pc + (length data - ri)"
proof (induction e fid headers data ri pd pc w rule: row_loop.induct)
  case (1 e fid headers data rowIndex processedData processedCount w)
  show ?case
  proof (cases "rowIndex < length data")
    case True
    then have up: "[rowIndex..<length data] = rowIndex # [rowIndex + 1..<length data]"
      by (simp add: upt_conv_Cons)
    show ?thesis
    proof (cases "(processedCount + 1) mod 10 = 0")
      case c: True
      from "1.prems" True c obtain w1 where
        u: "fp_update e (Checkpoint (processedCount + 1)) fid
              (\<lambda>j. j\<lparr>processedRows := Some (processedCount + 1)\<rparr>) w = Inr w1"
        and r: "row_loop e fid headers data (rowIndex + 1)
                  (col_loop fid headers (data ! rowIndex) rowIndex 0 processedData)
                  (processedCount + 1) w1 = (Inr (pd', pc'), w')"
        by (subst (asm) row_loop.simps) (auto simp: Let_def split: sum.splits)
      from "1.IH"(1)[OF True refl refl refl c u r] True show ?thesis
        by (simp add: up col_loop_eq)
    next
      case c: False
      from "1.prems" True c have
        r: "row_loop e fid headers data (rowIndex + 1)
              (col_loop fid headers (data ! rowIndex) rowIndex 0 processedData)
              (processedCount + 1) w = (Inr (pd', pc'), w')"
        by (subst (asm) row_loop.simps) (auto simp: Let_def split: sum.splits)
      from "1.IH"(2)[OF True refl refl refl c r] True show ?thesis
        by (simp add: up col_loop_eq)
    qed
  next
    case False
    with "1.prems" show ?thesis
      by (subst (asm) row_loop.simps) auto
  qed
qed

lemma distinct_nonblank_cells: "distinct (nonblank_cells headers data)"
  by (simp add: nonblank_cells_def cell_positions_def distinct_product)

lemma set_nonblank_cells:
  "set (nonblank_cells headers data) =
     {(ri, ci). 1 \<le> ri \<and> ri < length data \<and> ci < length headers
        \<and> materialized (cell_at (data ! ri) ci)}"
  by (auto simp: nonblank_cells_def cell_positions_def nonblank_def)

lemma row_loop_emits:
  "row_loop e fid headers data 1 [] 0 w = (Inr (pd, pc), w') \<Longrightarrow>
     pd = map (record_at fid headers data) (nonblank_cells headers data) \<and> pc = length data - 1"
  using row_loop_result[of e fid headers data 1 "[]" 0 w pd pc w']
  by (simp add: nonblank_cells_def cell_positions_def)

section \<open>The store during one execution\<close>

lemma fp_update_Inr:
  "fp_update e s fid f w = Inr w' \<Longrightarrow>
     \<exists>j. jobs w fid = Some j \<and> w' = w\<lparr>jobs := (jobs w)(fid \<mapsto> f j)\<rparr> \<and> store_fault e s = None"
  by (auto simp: fp_update_def split: option.splits)

lemma fp_update_ok:
  "store_fault e s = None \<Longrightarrow> jobs w fid = Some j \<Longrightarrow>
     fp_update e s fid f w = Inr (w\<lparr>jobs := (jobs w)(fid \<mapsto> f j)\<rparr>)"
  by (simp add: fp_update_def)

lemma progress_only_refl: "progress_only fid w w"
proof (cases "jobs w fid")
  case None
  then show ?thesis by (simp add: progress_only_def)
next
  case (Some j)
  have "j = j\<lparr>processedRows := processedRows j\<rparr>" by simp
  with Some show ?thesis
    unfolding progress_only_def by (auto intro: exI[of _ "processedRows j"])
qed

lemma progress_only_step:
  assumes u: "fp_update e s fid (\<lambda>j. j\<lparr>processedRows := Some n\<rparr>) w = Inr w1"
    and p: "progress_only fid w1 w'"
  shows "progress_only fid w w'"
proof -
  from fp_update_Inr[OF u] obtain j where j: "jobs w fid = Some j"
    and w1: "w1 = w\<lparr>jobs := (jobs w)(fid \<mapsto> j\<lparr>processedRows := Some n\<rparr>)\<rparr>"
    by (elim exE conjE)
  from p w1 j show ?thesis
    by (auto simp: progress_only_def)
qed

lemma row_loop_world:
  "row_loop e fid headers data ri pd pc w = (res, w') \<Longrightarrow> progress_only fid w w'"
proof (induction e fid headers data ri pd pc w rule: row_loop.induct)
  case (1 e fid headers data rowIndex processedData processedCount w)
  show ?case
  proof (cases "rowIndex < length data")
    case True
    show ?thesis
    proof (cases "(processedCount + 1) mod 10 = 0")
      case c: True
      show ?thesis
      proof (cases "fp_update e (Checkpoint (processedCount + 1)) fid
                      (\<lambda>j. j\<lparr>processedRows := Some (processedCount + 1)\<rparr>) w")
        case (Inl t)
        with "1.prems" True c have "w' = w"
          by (subst (asm) row_loop.simps) (simp add: Let_def)
        then show ?thesis by (simp add: progress_only_refl)
      next
        case (Inr w1)
        with "1.prems" True c have
          r: "row_loop e fid headers data (rowIndex + 1)
                (col_loop fid headers (data ! rowIndex) rowIndex 0 processedData)
                (processedCount + 1) w1 = (res, w')"
          by (subst (asm) row_loop.simps) (simp add: Let_def)
        from "1.IH"(1)[OF True refl refl refl c Inr r] have "progress_only fid w1 w'" .
        with Inr show ?thesis by (rule progress_only_step)
      qed
    next
      case c: False
      from "1.prems" True c have
        r: "row_loop e fid headers data (rowIndex + 1)
              (col_loop fid headers (data ! rowIndex) rowIndex 0 processedData)
              (processedCount + 1) w = (res, w')"
        by (subst (asm) row_loop.simps) (simp add: Let_def)
      from "1.IH"(2)[OF True refl refl refl c r] show ?thesis .
    qed
  next
    case False
    with "1.prems" have "w' = w"
      by (subst (asm) row_loop.simps) simp
    then show ?thesis by (simp add: progress_only_refl)
  qed
qed

lemma row_loop_checkpoint_raises:
  "\<exists>n. pc < n \<and> n \<le> pc + (length data - ri) \<and> n mod 10 = 0
        \<and> store_fault e (Checkpoint n) \<noteq> None \<Longrightarrow>
     \<exists>t w'. row_loop e fid headers data ri pd pc w = (Inl t, w')"
proof (induction e fid headers data ri pd pc w rule: row_loop.induct)
  case (1 e fid headers data rowIndex processedData processedCount w)
  from "1.prems" obtain n where n1: "processedCount < n"
    and n2: "n \<le> processedCount + (length data - rowIndex)"
    and n3: "n mod 10 = 0" and n4: "store_fault e (Checkpoint n) \<noteq> None"
    by (elim exE conjE)
  from n1 n2 have True: "rowIndex < length data" by simp
  have next_fault:
    "\<exists>n. processedCount + 1 < n \<and> n \<le> processedCount + 1 + (length data - (rowIndex + 1))
        \<and> n mod 10 = 0 \<and> store_fault e (Checkpoint n) \<noteq> None"
    if ne: "n \<noteq> processedCount + 1"
  proof -
    from n1 ne have lt: "processedCount + 1 < n" by simp
    from n2 True have le: "n \<le> processedCount + 1 + (length data - (rowIndex + 1))" by simp
    from lt le n3 n4 show ?thesis by (intro exI[of _ n] conjI)
  qed
  show ?case
  proof (cases "(processedCount + 1) mod 10 = 0")
    case c: True
    show ?thesis
    proof (cases "fp_update e (Checkpoint (processedCount + 1)) fid
                    (\<lambda>j. j\<lparr>processedRows := Some (processedCount + 1)\<rparr>) w")
      case (Inl t)
      have "row_loop e fid headers data rowIndex processedData processedCount w = (Inl t, w)"
        using True c Inl by (subst row_loop.simps) (simp add: Let_def)
      then show ?thesis by (intro exI)
    next
      case (Inr w1)
      from fp_update_Inr[OF Inr] have "store_fault e (Checkpoint (processedCount + 1)) = None"
        by (elim exE conjE)
      with n4 have "n \<noteq> processedCount + 1" by auto
      from "1.IH"(1)[OF True refl refl refl c Inr next_fault[OF this]] obtain t w' where
        "row_loop e fid headers data (rowIndex + 1)
           (col_loop fid headers (data ! rowIndex) rowIndex 0 processedData)
           (processedCount + 1) w1 = (Inl t, w')"
        by (elim exE)
      then have "row_loop e fid headers data rowIndex processedData processedCount w = (Inl t, w')"
        using True c Inr by (subst row_loop.simps) (simp add: Let_def)
      then show ?thesis by (intro exI)
    qed
  next
    case c: False
    with n3 have "n \<noteq> processedCount + 1" by auto
    from "1.IH"(2)[OF True refl refl refl c next_fault[OF this]] obtain t w' where
      "row_loop e fid headers data (rowIndex + 1)
         (col_loop fid headers (data ! rowIndex) rowIndex 0 processedData)
         (processedCount + 1) w = (Inl t, w')"
      by (elim exE)
    then have "row_loop e fid headers data rowIndex processedData processedCount w = (Inl t, w')"
      using True c by (subst row_loop.simps) (simp add: Let_def)
    then show ?thesis by (intro exI)
  qed
qed

lemma batch_loop_result:
  "batch_loop e pd i w = (Inr u, w') \<Longrightarrow> w' = w\<lparr>records := records w @ drop i pd\<rparr>"
proof (induction e pd i w rule: batch_loop.induct)
  case (1 e processedData i w)
  show ?case
  proof (cases "i < length processedData")
    case True
    from "1.prems" True obtain w1 where
      c: "createMany e (CreateMany i) (take 100 (drop i processedData)) w = Inr w1"
      and r: "batch_loop e processedData (i + 100) w1 = (Inr u, w')"
      by (subst (asm) batch_loop.simps) (auto simp: Let_def split: sum.splits)
    from c have w1: "w1 = w\<lparr>records := records w @ take 100 (drop i processedData)\<rparr>"
      by (auto simp: createMany_def split: option.splits)
    have "take 100 (drop i processedData) @ drop (i + 100) processedData = drop i processedData"
      by (metis add.commute append_take_drop_id drop_drop)
    with "1.IH"[OF True refl c r] w1 show ?thesis by simp
  next
    case False
    with "1.prems" show ?thesis
      by (subst (asm) batch_loop.simps) simp
  qed
qed

lemma handle_try_success:
  assumes "handle_try e jd w = (Inr n, w')"
  shows "\<exists>j data j'. jobs w (jd_fileProcessingId jd) = Some j
      \<and> read_sheet e (jd_fileUrl jd) = Inr data \<and> data \<noteq> []
      \<and> n = length data - 1
      \<and> records w' = records w @
           map (record_at (jd_fileProcessingId jd) (data ! 0) data) (nonblank_cells (data ! 0) data)
      \<and> queue w' = queue w
      \<and> (\<forall>k. k \<noteq> jd_fileProcessingId jd \<longrightarrow> jobs w' k = jobs w k)
      \<and> jobs w' (jd_fileProcessingId jd) = Some j'
      \<and> status j' = COMPLETED
      \<and> retryCount j' = (case jd_retryCount jd of None \<Rightarrow> 0 | Some n \<Rightarrow> n)
      \<and> totalRows j' = Some (length data - 1) \<and> processedRows j' = Some (length data - 1)
      \<and> completedAt j' = Some (now e) \<and> errorMessage j' = errorMessage j
      \<and> userId j' = userId j \<and> fileUrl j' = fileUrl j"
proof -
  let ?fid = "jd_fileProcessingId jd"
  let ?rc = "case jd_retryCount jd of None \<Rightarrow> 0 | Some n \<Rightarrow> n"
  from assms obtain w1 data w2 pd pc w3 u w4 where
    s1: "fp_update e SetInProgress ?fid (\<lambda>j. j\<lparr>status := IN_PROGRESS, retryCount := ?rc\<rparr>) w = Inr w1"
    and s2: "read_sheet e (jd_fileUrl jd) = Inr data" and ne: "data \<noteq> []"
    and s3: "fp_update e SetTotalRows ?fid (\<lambda>j. j\<lparr>totalRows := Some (length data - 1)\<rparr>) w1 = Inr w2"
    and s4: "row_loop e ?fid (data ! 0) data 1 [] 0 w2 = (Inr (pd, pc), w3)"
    and s5: "batch_loop e pd 0 w3 = (Inr u, w4)"
    and s6: "fp_update e MarkCompleted ?fid
               (\<lambda>j. j\<lparr>status := COMPLETED, processedRows := Some pc, completedAt := Some (now e)\<rparr>) w4
             = Inr w'"
    and n: "n = pc"
    unfolding handle_try_def Let_def
    by (auto split: sum.splits prod.splits if_splits)
  from fp_update_Inr[OF s1] obtain j where j: "jobs w ?fid = Some j"
    and w1: "w1 = w\<lparr>jobs := (jobs w)(?fid \<mapsto> j\<lparr>status := IN_PROGRESS, retryCount := ?rc\<rparr>)\<rparr>"
    by (elim exE conjE)
  from fp_update_Inr[OF s3] w1 have
    w2: "w2 = w1\<lparr>jobs := (jobs w1)(?fid \<mapsto>
           j\<lparr>status := IN_PROGRESS, retryCount := ?rc\<rparr>\<lparr>totalRows := Some (length data - 1)\<rparr>)\<rparr>"
    by auto
  from row_loop_emits[OF s4] have
    pd: "pd = map (record_at ?fid (data ! 0) data) (nonblank_cells (data ! 0) data)"
    and pc: "pc = length data - 1" by simp_all
  from row_loop_world[OF s4] w2 w1 obtain p where
    r3: "records w3 = records w" and q3: "queue w3 = queue w"
    and o3: "\<forall>k. k \<noteq> ?fid \<longrightarrow> jobs w3 k = jobs w k"
    and j3: "jobs w3 ?fid = Some (j\<lparr>status := IN_PROGRESS, retryCount := ?rc\<rparr>
               \<lparr>totalRows := Some (length data - 1)\<rparr>\<lparr>processedRows := p\<rparr>)"
    by (auto simp: progress_only_def)
  from batch_loop_result[OF s5] have w4: "w4 = w3\<lparr>records := records w3 @ pd\<rparr>" by simp
  from fp_update_Inr[OF s6] obtain j4 where j4: "jobs w4 ?fid = Some j4"
    and w': "w' = w4\<lparr>jobs := (jobs w4)(?fid \<mapsto>
          j4\<lparr>status := COMPLETED, processedRows := Some pc, completedAt := Some (now e)\<rparr>)\<rparr>"
    by (elim exE conjE)
  from j4 w4 j3 have j4_eq: "j4 = j\<lparr>status := IN_PROGRESS, retryCount := ?rc\<rparr>
      \<lparr>totalRows := Some (length data - 1)\<rparr>\<lparr>processedRows := p\<rparr>"
    by simp
  let ?j' = "j4\<lparr>status := COMPLETED, processedRows := Some pc, completedAt := Some (now e)\<rparr>"
  have f: "jobs w' ?fid = Some ?j'" "records w' = records w @ pd" "queue w' = queue w"
    "\<forall>k. k \<noteq> ?fid \<longrightarrow> jobs w' k = jobs w k"
    using w' w4 r3 q3 o3 by simp_all
  have g: "status ?j' = COMPLETED" "retryCount ?j' = ?rc" "totalRows ?j' = Some (length data - 1)"
    "processedRows ?j' = Some (length data - 1)" "completedAt ?j' = Some (now e)"
    "errorMessage ?j' = errorMessage j" "userId ?j' = userId j" "fileUrl ?j' = fileUrl j"
    using j4_eq pc by simp_all
  show ?thesis
    apply (rule exI[of _ j], rule exI[of _ data], rule exI[of _ ?j'])
    using j s2 ne n pc f g unfolding pd by simp
qed

section \<open>Evaluation on concrete inputs\<close>

lemmas run_simps =
  handleExcelJob_def handle_try_def fp_update_def createMany_def
  row_loop.simps col_loop.simps batch_loop.simps cell_at_def materialized_def
  string_of_int_def string_of_nat.simps digit_char_def
  quiet_env_def faulty_env_def w_pending_def job_pending_def jd1_def

lemma run_people:
  "row_loop (quiet_env sheet_people) 1 (sheet_people ! 0) sheet_people 1 [] 0 w_pending
     = (Inr (people_records, 2), w_pending)"
  by (simp add: run_simps sheet_people_def people_records_def)

lemma run_dates:
  "row_loop (quiet_env sheet_dates) 1 (sheet_dates ! 0) sheet_dates 1 [] 0 w_pending
     = (Inr (date_records, 1), w_pending)"
  by (simp add: run_simps sheet_dates_def cells_dates_def date_records_def)

lemma handle_people:
  "handleExcelJob (quiet_env sheet_people) jd1 w_pending = (Inr 2, w_people_done)"
  by (simp add: run_simps sheet_people_def people_records_def w_people_done_def numeral_2_eq_2)

section \<open>Extraction\<close>

text \<open>
  C10. The worker's notion of a blank cell is strict equality to \<^verbatim>\<open>undefined\<close>,
  \<^verbatim>\<open>null\<close> or the empty string: a one-cell row under a one-column header yields no
  record for exactly these three values and one record for any other. A string of one
  space, the number 0 and the boolean false are each materialized, with the values
  \<^verbatim>\<open>' '\<close>, \<^verbatim>\<open>'0'\<close> and \<^verbatim>\<open>'false'\<close>.
\<close>

theorem blank_is_strict_equality:
  "col_loop fid [h] [v] ri 0 [] =
     (if v = JUndefined \<or> v = JNull \<or> v = JString '''' then []
      else [\<lparr>fileProcessingId = fid, rowNumber = ri + 1, columnName = h,
             value_str = String v, dataType = typeof v\<rparr>])
   \<and> col_loop fid [h1, h2, h3] [JString '' '', JNumber 0, JBoolean False] ri 0 [] =
       [\<lparr>fileProcessingId = fid, rowNumber = ri + 1, columnName = h1,
         value_str = '' '', dataType = ''string''\<rparr>,
        \<lparr>fileProcessingId = fid, rowNumber = ri + 1, columnName = h2,
         value_str = ''0'', dataType = ''number''\<rparr>,
        \<lparr>fileProcessingId = fid, rowNumber = ri + 1, columnName = h3,
         value_str = ''false'', dataType = ''boolean''\<rparr>]"
  by (simp add: col_loop.simps cell_at_def materialized_def string_of_int_def
      string_of_nat.simps digit_char_def)

text \<open>
  C5. When the row loop of the worker returns, the records it has built are, in row-major
  order, the records of the non-blank cells among the cells of the data rows under the
  header's columns, one record per such cell and none for any other cell; their number
  is the number of these non-blank cells.
\<close>

theorem extraction_emits_nonblank_cells:
  assumes "row_loop e fid headers data 1 [] 0 w = (Inr (pd, pc), w')"
  shows "pd = map (record_at fid headers data) (nonblank_cells headers data)
    \<and> distinct (nonblank_cells headers data)
    \<and> set (nonblank_cells headers data) =
        {(ri, ci). 1 \<le> ri \<and> ri < length data \<and> ci < length headers
           \<and> materialized (cell_at (data ! ri) ci)}
    \<and> length pd =
        card {(ri, ci). 1 \<le> ri \<and> ri < length data \<and> ci < length headers
                \<and> materialized (cell_at (data ! ri) ci)}"
proof -
  from row_loop_emits[OF assms] have
    pd: "pd = map (record_at fid headers data) (nonblank_cells headers data)" by simp
  have "length pd = card (set (nonblank_cells headers data))"
    unfolding pd by (simp add: distinct_card distinct_nonblank_cells)
  with pd show ?thesis
    by (simp only: set_nonblank_cells distinct_nonblank_cells simp_thms)
qed

theorem extraction_emits_nonblank_cells_witness:
  "row_loop (quiet_env sheet_people) 1 (sheet_people ! 0) sheet_people 1 [] 0 w_pending
     = (Inr (people_records, 2), w_pending)
   \<and> people_records =
       map (record_at 1 (sheet_people ! 0) sheet_people) (nonblank_cells (sheet_people ! 0) sheet_people)
   \<and> length people_records = 3
   \<and> card {(ri, ci). 1 \<le> ri \<and> ri < length sheet_people \<and> ci < length (sheet_people ! 0)
              \<and> materialized (cell_at (sheet_people ! ri) ci)} = 3"
proof -
  have len: "length people_records = 3" by (simp add: people_records_def)
  from extraction_emits_nonblank_cells[OF run_people] len run_people show ?thesis
    by (simp only: simp_thms)
qed

text \<open>
  C7. The specification gives the first data row the row number 1. On the sheet with
  the header \<^verbatim>\<open>[ID, Name]\<close> and two data rows, the records of the first data row
  carry 2 and the record of the second carries 3.
\<close>

theorem rowNumber_first_data_row_counterexample:
  "row_loop (quiet_env sheet_people) 1 (sheet_people ! 0) sheet_people 1 [] 0 w_pending
     = (Inr (people_records, 2), w_pending)
   \<and> map rowNumber people_records = [2, 2, 3]"
  using run_people by (simp add: people_records_def)

text \<open>
  C7, as amended. The row number of a record is the position of its row in the sheet,
  counted from 1 with the header row included: every record built by the row loop is the
  record of a non-blank cell of some data row \<^verbatim>\<open>data[k]\<close>, \<open>1 \<le> k\<close>, and carries
  \<open>k + 1\<close>; and every non-blank cell of \<^verbatim>\<open>data[k]\<close> under a header column has its
  record, with row number \<open>k + 1\<close>. The first data row gets 2.
\<close>

theorem rowNumber_is_sheet_row:
  assumes "row_loop e fid headers data 1 [] 0 w = (Inr (pd, pc), w')"
  shows "(\<forall>rec \<in> set pd. \<exists>k ci. 1 \<le> k \<and> k < length data \<and> ci < length headers
            \<and> materialized (cell_at (data ! k) ci)
            \<and> rec = record_at fid headers data (k, ci) \<and> rowNumber rec = k + 1)
    \<and> (\<forall>k ci. 1 \<le> k \<and> k < length data \<and> ci < length headers
            \<and> materialized (cell_at (data ! k) ci)
          \<longrightarrow> record_at fid headers data (k, ci) \<in> set pd
              \<and> rowNumber (record_at fid headers data (k, ci)) = k + 1)"
proof -
  from row_loop_emits[OF assms] have
    pd: "pd = map (record_at fid headers data) (nonblank_cells headers data)" by simp
  have rn: "rowNumber (record_at fid headers data (k, ci)) = k + 1" for k ci
    by (simp add: record_at_def)
  have a: "\<exists>k ci. 1 \<le> k \<and> k < length data \<and> ci < length headers
            \<and> materialized (cell_at (data ! k) ci)
            \<and> rec = record_at fid headers data (k, ci) \<and> rowNumber rec = k + 1"
    if "rec \<in> set pd" for rec
  proof -
    from that pd obtain p where p: "p \<in> set (nonblank_cells headers data)"
      and rec: "rec = record_at fid headers data p" by auto
    obtain k ci where kc: "p = (k, ci)" by (cases p)
    from p kc have "1 \<le> k \<and> k < length data \<and> ci < length headers
        \<and> materialized (cell_at (data ! k) ci)"
      by (simp add: set_nonblank_cells)
    with rec kc rn show ?thesis by auto
  qed
  have b: "record_at fid headers data (k, ci) \<in> set pd"
    if "1 \<le> k \<and> k < length data \<and> ci < length headers \<and> materialized (cell_at (data ! k) ci)"
    for k ci
  proof -
    from that have "(k, ci) \<in> set (nonblank_cells headers data)"
      by (simp add: set_nonblank_cells)
    then show ?thesis unfolding pd by simp
  qed
  from a b rn show ?thesis by auto
qed

theorem rowNumber_is_sheet_row_witness:
  "row_loop (quiet_env sheet_people) 1 (sheet_people ! 0) sheet_people 1 [] 0 w_pending
     = (Inr (people_records, 2), w_pending)
   \<and> (1::nat) \<le> 1 \<and> 1 < length sheet_people \<and> 0 < length (sheet_people ! 0)
   \<and> materialized (cell_at (sheet_people ! 1) 0)
   \<and> record_at 1 (sheet_people ! 0) sheet_people (1, 0) \<in> set people_records
   \<and> rowNumber (record_at 1 (sheet_people ! 0) sheet_people (1, 0)) = 2"
proof -
  have h: "(1::nat) \<le> 1 \<and> 1 < length sheet_people \<and> 0 < length (sheet_people ! 0)
      \<and> materialized (cell_at (sheet_people ! 1) 0)"
    by (simp add: sheet_people_def cell_at_def materialized_def)
  from rowNumber_is_sheet_row[OF run_people] have
    "1 \<le> (1::nat) \<and> 1 < length sheet_people \<and> 0 < length (sheet_people ! 0)
       \<and> materialized (cell_at (sheet_people ! 1) 0)
     \<longrightarrow> record_at 1 (sheet_people ! 0) sheet_people (1, 0) \<in> set people_records
       \<and> rowNumber (record_at 1 (sheet_people ! 0) sheet_people (1, 0)) = 1 + 1"
    by (elim conjE allE)
  with h run_people show ?thesis by simp
qed

text \<open>
  C6. The specification gives a temporal cell the tag \<^verbatim>\<open>date\<close>. A date cell reaches
  the worker as its serial number, and the record built for it carries the tag
  \<^verbatim>\<open>number\<close>.
\<close>

theorem dataType_of_date_counterexample:
  "temporal (cells_dates ! 1 ! 0)
   \<and> sheet_dates = map (map delivered) cells_dates
   \<and> row_loop (quiet_env sheet_dates) 1 (sheet_dates ! 0) sheet_dates 1 [] 0 w_pending
     = (Inr (date_records, 1), w_pending)
   \<and> map dataType date_records = [''number'']"
  using run_dates by (simp add: date_records_def cells_dates_def sheet_dates_def)

lemma typeof_delivered:
  "materialized (delivered c) \<Longrightarrow> typeof (delivered c) \<in> {''string'', ''number'', ''boolean''}"
  by (cases c) (auto simp: materialized_def split: if_splits)

lemma temporal_delivered:
  "temporal c \<Longrightarrow> materialized (delivered c) \<and> typeof (delivered c) = ''number''"
  by (cases c) (simp_all add: materialized_def)

lemma cell_at_delivered:
  "ci < length (cells ! k) \<Longrightarrow> k < length cells \<Longrightarrow>
     cell_at (map (map delivered) cells ! k) ci = delivered (cells ! k ! ci)"
  by (simp add: cell_at_def)

lemma materialized_cell_delivered:
  assumes "materialized (cell_at (map (map delivered) cells ! k) ci)" and "k < length cells"
  shows "\<exists>c. cell_at (map (map delivered) cells ! k) ci = delivered c"
proof (cases "ci < length (cells ! k)")
  case True
  from cell_at_delivered[OF True assms(2)] show ?thesis by (rule exI)
next
  case False
  with assms show ?thesis by (simp add: cell_at_def materialized_def)
qed

text \<open>
  C6, as amended. For the rows the parser delivers, the data type of every record built
  by the row loop is the result of \<^verbatim>\<open>typeof\<close> on the delivered value, one of
  \<^verbatim>\<open>string\<close>, \<^verbatim>\<open>number\<close> and \<^verbatim>\<open>boolean\<close>; no record carries \<^verbatim>\<open>date\<close> or
  \<^verbatim>\<open>other\<close>. Every temporal cell of a data row under a header column has its record,
  and its tag is \<^verbatim>\<open>number\<close>.
\<close>

theorem dataType_is_typeof:
  assumes run: "row_loop e fid headers data 1 [] 0 w = (Inr (pd, pc), w')"
    and parsed: "data = map (map delivered) cells"
  shows "(\<forall>rec \<in> set pd.
            (\<exists>k ci. 1 \<le> k \<and> k < length data \<and> ci < length headers
               \<and> rec = record_at fid headers data (k, ci)
               \<and> dataType rec = typeof (cell_at (data ! k) ci))
          \<and> dataType rec \<in> {''string'', ''number'', ''boolean''}
          \<and> dataType rec \<noteq> ''date'' \<and> dataType rec \<noteq> ''other'')
       \<and> (\<forall>k ci. 1 \<le> k \<and> k < length cells \<and> ci < length headers \<and> ci < length (cells ! k)
              \<and> temporal (cells ! k ! ci)
            \<longrightarrow> record_at fid headers data (k, ci) \<in> set pd
                \<and> dataType (record_at fid headers data (k, ci)) = ''number'')"
proof (rule conjI)
  from row_loop_emits[OF run] have
    pd: "pd = map (record_at fid headers data) (nonblank_cells headers data)" by simp
  show "\<forall>rec \<in> set pd.
            (\<exists>k ci. 1 \<le> k \<and> k < length data \<and> ci < length headers
               \<and> rec = record_at fid headers data (k, ci)
               \<and> dataType rec = typeof (cell_at (data ! k) ci))
          \<and> dataType rec \<in> {''string'', ''number'', ''boolean''}
          \<and> dataType rec \<noteq> ''date'' \<and> dataType rec \<noteq> ''other''"
  proof
    fix rec assume "rec \<in> set pd"
    with pd obtain p where p: "p \<in> set (nonblank_cells headers data)"
      and rec: "rec = record_at fid headers data p" by auto
    obtain k ci where kc: "p = (k, ci)" by (cases p)
    from p kc have r: "1 \<le> k \<and> k < length data \<and> ci < length headers"
      and m: "materialized (cell_at (data ! k) ci)"
      by (simp_all add: set_nonblank_cells)
    from r parsed have kl: "k < length cells" by simp
    have dt: "dataType rec = typeof (cell_at (data ! k) ci)"
      by (simp add: rec kc record_at_def)
    from materialized_cell_delivered[OF m[unfolded parsed] kl] obtain c where
      c: "cell_at (data ! k) ci = delivered c" unfolding parsed by (elim exE)
    from m c have "materialized (delivered c)" by simp
    from typeof_delivered[OF this] dt c have
      mem: "dataType rec \<in> {''string'', ''number'', ''boolean''}" by simp
    then have "dataType rec \<noteq> ''date''" "dataType rec \<noteq> ''other''" by auto
    with r rec kc dt mem
    show "(\<exists>k ci. 1 \<le> k \<and> k < length data \<and> ci < length headers
               \<and> rec = record_at fid headers data (k, ci)
               \<and> dataType rec = typeof (cell_at (data ! k) ci))
          \<and> dataType rec \<in> {''string'', ''number'', ''boolean''}
          \<and> dataType rec \<noteq> ''date'' \<and> dataType rec \<noteq> ''other''"
      by (intro conjI exI[of _ k] exI[of _ ci]) simp_all
  qed
  show "\<forall>k ci. 1 \<le> k \<and> k < length cells \<and> ci < length headers \<and> ci < length (cells ! k)
              \<and> temporal (cells ! k ! ci)
            \<longrightarrow> record_at fid headers data (k, ci) \<in> set pd
                \<and> dataType (record_at fid headers data (k, ci)) = ''number''"
  proof (intro allI impI)
    fix k ci
    assume h: "1 \<le> k \<and> k < length cells \<and> ci < length headers \<and> ci < length (cells ! k)
              \<and> temporal (cells ! k ! ci)"
    then have ca: "cell_at (data ! k) ci = delivered (cells ! k ! ci)"
      unfolding parsed by (simp add: cell_at_def)
    from h temporal_delivered have td: "materialized (delivered (cells ! k ! ci))"
      "typeof (delivered (cells ! k ! ci)) = ''number''" by simp_all
    from h td ca parsed have "(k, ci) \<in> set (nonblank_cells headers data)"
      by (simp add: set_nonblank_cells)
    then have "record_at fid headers data (k, ci) \<in> set pd" unfolding pd by simp
    moreover have "dataType (record_at fid headers data (k, ci)) = ''number''"
      using ca td by (simp add: record_at_def)
    ultimately show "record_at fid headers data (k, ci) \<in> set pd
                \<and> dataType (record_at fid headers data (k, ci)) = ''number''" by simp
  qed
qed

theorem dataType_is_typeof_witness:
  "row_loop (quiet_env sheet_dates) 1 (sheet_dates ! 0) sheet_dates 1 [] 0 w_pending
     = (Inr (date_records, 1), w_pending)
   \<and> sheet_dates = map (map delivered) cells_dates
   \<and> hd date_records \<in> set date_records
   \<and> dataType (hd date_records) \<in> {''string'', ''number'', ''boolean''}
   \<and> dataType (hd date_records) \<noteq> ''date'' \<and> dataType (hd date_records) \<noteq> ''other''
   \<and> (1::nat) \<le> 1 \<and> 1 < length cells_dates \<and> 0 < length (sheet_dates ! 0)
   \<and> 0 < length (cells_dates ! 1) \<and> temporal (cells_dates ! 1 ! 0)
   \<and> record_at 1 (sheet_dates ! 0) sheet_dates (1, 0) \<in> set date_records
   \<and> dataType (record_at 1 (sheet_dates ! 0) sheet_dates (1, 0)) = ''number''"
proof -
  have p: "sheet_dates = map (map delivered) cells_dates" by (simp add: sheet_dates_def)
  have m: "hd date_records \<in> set date_records" by (simp add: date_records_def)
  have h: "(1::nat) \<le> 1 \<and> 1 < length cells_dates \<and> 0 < length (sheet_dates ! 0)
      \<and> 0 < length (cells_dates ! 1) \<and> temporal (cells_dates ! 1 ! 0)"
    by (simp add: cells_dates_def sheet_dates_def)
  note t = dataType_is_typeof[OF run_dates p]
  from t[THEN conjunct1] m have a:
    "dataType (hd date_records) \<in> {''string'', ''number'', ''boolean''}
     \<and> dataType (hd date_records) \<noteq> ''date'' \<and> dataType (hd date_records) \<noteq> ''other''"
    by (elim ballE[of _ _ "hd date_records"]) (elim conjE, intro conjI, assumption+, simp)
  from t[THEN conjunct2, THEN spec, THEN spec, THEN mp, OF h] have b:
    "record_at 1 (sheet_dates ! 0) sheet_dates (1, 0) \<in> set date_records
     \<and> dataType (record_at 1 (sheet_dates ! 0) sheet_dates (1, 0)) = ''number''" .
  from run_dates p m a h b show ?thesis by (simp only: simp_thms)
qed

section \<open>The worker's job states\<close>

lemma handleExcelJob_success:
  "handleExcelJob e jd w = (Inr n, w') \<Longrightarrow> handle_try e jd w = (Inr n, w')"
  by (auto simp: handleExcelJob_def split: prod.splits sum.splits)

text \<open>
  C8. When the handler returns for a job that was \<^verbatim>\<open>PENDING\<close>, the job is
  \<^verbatim>\<open>COMPLETED\<close>, its \<^verbatim>\<open>totalRows\<close> is the number of rows of the sheet minus the header
  row, its \<^verbatim>\<open>processedRows\<close> equals its \<^verbatim>\<open>totalRows\<close>, and its \<^verbatim>\<open>completedAt\<close> is
  set.
\<close>

theorem completed_job_counts:
  assumes "handleExcelJob e jd w = (Inr n, w')"
    and "jobs w (jd_fileProcessingId jd) = Some j"
    and "status j = PENDING"
    and "read_sheet e (jd_fileUrl jd) = Inr data"
  shows "\<exists>j'. jobs w' (jd_fileProcessingId jd) = Some j' \<and> status j' = COMPLETED
      \<and> data \<noteq> [] \<and> totalRows j' = Some (length data - 1)
      \<and> processedRows j' = totalRows j' \<and> completedAt j' \<noteq> None \<and> n = length data - 1"
proof -
  from handle_try_success[OF handleExcelJob_success[OF assms(1)]] obtain j0 data0 j' where
    rd: "read_sheet e (jd_fileUrl jd) = Inr data0" and ne: "data0 \<noteq> []"
    and n: "n = length data0 - 1"
    and j': "jobs w' (jd_fileProcessingId jd) = Some j'" "status j' = COMPLETED"
      "totalRows j' = Some (length data0 - 1)" "processedRows j' = Some (length data0 - 1)"
      "completedAt j' = Some (now e)"
    by (elim exE conjE)
  from rd assms(4) have "data0 = data" by simp
  with ne n j' show ?thesis by (intro exI[of _ j']) simp
qed

theorem completed_job_counts_witness:
  "handleExcelJob (quiet_env sheet_people) jd1 w_pending = (Inr 2, w_people_done)
   \<and> jobs w_pending (jd_fileProcessingId jd1) = Some job_pending
   \<and> status job_pending = PENDING
   \<and> read_sheet (quiet_env sheet_people) (jd_fileUrl jd1) = Inr sheet_people
   \<and> (\<exists>j'. jobs w_people_done (jd_fileProcessingId jd1) = Some j' \<and> status j' = COMPLETED
        \<and> sheet_people \<noteq> [] \<and> totalRows j' = Some (length sheet_people - 1)
        \<and> processedRows j' = totalRows j' \<and> completedAt j' \<noteq> None
        \<and> (2::nat) = length sheet_people - 1)"
proof -
  have h2: "jobs w_pending (jd_fileProcessingId jd1) = Some job_pending"
    by (simp add: w_pending_def jd1_def)
  have h3: "status job_pending = PENDING" by (simp add: job_pending_def)
  have h4: "read_sheet (quiet_env sheet_people) (jd_fileUrl jd1) = Inr sheet_people"
    by (simp add: quiet_env_def)
  from completed_job_counts[OF handle_people h2 h3 h4] handle_people h2 h3 h4
  show ?thesis by (simp only: simp_thms)
qed

text \<open>
  C2. The specification lets the extraction of a file with a header row and no data row fail.
  On such a file the handler returns, with the job \<^verbatim>\<open>COMPLETED\<close> and \<^verbatim>\<open>totalRows\<close> 0.
\<close>

theorem header_only_counterexample:
  "handleExcelJob (quiet_env sheet_header_only) jd1 w_pending = (Inr 0, w_header_only_done)"
  by (simp add: run_simps sheet_header_only_def w_header_only_done_def)

lemma row_loop_quiet:
  "\<forall>n. store_fault e (Checkpoint n) = None \<Longrightarrow> jobs w fid \<noteq> None \<Longrightarrow>
     \<exists>pd' pc' w'. row_loop e fid headers data ri pd pc w = (Inr (pd', pc'), w')"
proof (induction e fid headers data ri pd pc w rule: row_loop.induct)
  case (1 e fid headers data rowIndex processedData processedCount w)
  show ?case
  proof (cases "rowIndex < length data")
    case True
    show ?thesis
    proof (cases "(processedCount + 1) mod 10 = 0")
      case c: True
      from "1.prems"(2) obtain j where j: "jobs w fid = Some j" by auto
      from "1.prems"(1) have q: "store_fault e (Checkpoint (processedCount + 1)) = None"
        by (rule spec)
      let ?w1 = "w\<lparr>jobs := (jobs w)(fid \<mapsto> j\<lparr>processedRows := Some (processedCount + 1)\<rparr>)\<rparr>"
      have u: "fp_update e (Checkpoint (processedCount + 1)) fid
                 (\<lambda>j. j\<lparr>processedRows := Some (processedCount + 1)\<rparr>) w = Inr ?w1"
        by (rule fp_update_ok[OF q j])
      have ex: "jobs ?w1 fid \<noteq> None" by simp
      from "1.IH"(1)[OF True refl refl refl c u "1.prems"(1) ex] obtain pd' pc' w' where
        "row_loop e fid headers data (rowIndex + 1)
           (col_loop fid headers (data ! rowIndex) rowIndex 0 processedData)
           (processedCount + 1) ?w1 = (Inr (pd', pc'), w')"
        by (elim exE)
      then have "row_loop e fid headers data rowIndex processedData processedCount w
          = (Inr (pd', pc'), w')"
        using True c u by (subst row_loop.simps) (simp add: Let_def)
      then show ?thesis by (intro exI)
    next
      case c: False
      from "1.IH"(2)[OF True refl refl refl c "1.prems"] obtain pd' pc' w' where
        "row_loop e fid headers data (rowIndex + 1)
           (col_loop fid headers (data ! rowIndex) rowIndex 0 processedData)
           (processedCount + 1) w = (Inr (pd', pc'), w')"
        by (elim exE)
      then have "row_loop e fid headers data rowIndex processedData processedCount w
          = (Inr (pd', pc'), w')"
        using True c by (subst row_loop.simps) (simp add: Let_def)
      then show ?thesis by (intro exI)
    qed
  next
    case False
    then have "row_loop e fid headers data rowIndex processedData processedCount w
        = (Inr (processedData, processedCount), w)"
      by (subst row_loop.simps) simp
    then show ?thesis by (intro exI)
  qed
qed

lemma batch_loop_quiet:
  "\<forall>i. store_fault e (CreateMany i) = None \<Longrightarrow> \<exists>w'. batch_loop e pd i w = (Inr (), w')"
proof (induction e pd i w rule: batch_loop.induct)
  case (1 e processedData i w)
  show ?case
  proof (cases "i < length processedData")
    case True
    from "1.prems" have q: "store_fault e (CreateMany i) = None" by (rule spec)
    let ?w1 = "w\<lparr>records := records w @ take 100 (drop i processedData)\<rparr>"
    have c: "createMany e (CreateMany i) (take 100 (drop i processedData)) w = Inr ?w1"
      by (simp add: createMany_def q)
    from "1.IH"[OF True refl c "1.prems"] obtain w' where
      "batch_loop e processedData (i + 100) ?w1 = (Inr (), w')" by (elim exE)
    then have "batch_loop e processedData i w = (Inr (), w')"
      using True c by (subst batch_loop.simps) (simp add: Let_def)
    then show ?thesis by (intro exI)
  next
    case False
    then have "batch_loop e processedData i w = (Inr (), w)"
      by (subst batch_loop.simps) simp
    then show ?thesis by (intro exI)
  qed
qed

lemma handle_try_quiet:
  assumes j: "jobs w (jd_fileProcessingId jd) = Some j"
    and quiet: "\<forall>s. store_fault e s = None"
    and rd: "read_sheet e (jd_fileUrl jd) = Inr data"
    and ne: "data \<noteq> []"
  shows "\<exists>n w'. handle_try e jd w = (Inr n, w')"
proof -
  let ?fid = "jd_fileProcessingId jd"
  let ?rc = "case jd_retryCount jd of None \<Rightarrow> 0 | Some n \<Rightarrow> n"
  let ?j1 = "j\<lparr>status := IN_PROGRESS, retryCount := ?rc\<rparr>"
  let ?w1 = "w\<lparr>jobs := (jobs w)(?fid \<mapsto> ?j1)\<rparr>"
  let ?j2 = "?j1\<lparr>totalRows := Some (length data - 1)\<rparr>"
  let ?w2 = "?w1\<lparr>jobs := (jobs ?w1)(?fid \<mapsto> ?j2)\<rparr>"
  have q: "store_fault e s = None" for s using quiet by (rule spec)
  have s1: "fp_update e SetInProgress ?fid (\<lambda>j. j\<lparr>status := IN_PROGRESS, retryCount := ?rc\<rparr>) w
      = Inr ?w1"
    by (rule fp_update_ok[OF q j])
  have j1: "jobs ?w1 ?fid = Some ?j1" by simp
  have s3: "fp_update e SetTotalRows ?fid (\<lambda>j. j\<lparr>totalRows := Some (length data - 1)\<rparr>) ?w1
      = Inr ?w2"
    by (rule fp_update_ok[OF q j1])
  have ex2: "jobs ?w2 ?fid \<noteq> None" by simp
  have qc: "\<forall>n. store_fault e (Checkpoint n) = None" by (simp add: q)
  from row_loop_quiet[where fid = ?fid and headers = "data ! 0" and data = data and ri = 1
      and pd = "[]" and pc = 0, OF qc ex2]
  obtain pd pc w3 where rl: "row_loop e ?fid (data ! 0) data 1 [] 0 ?w2 = (Inr (pd, pc), w3)"
    by (elim exE)
  from row_loop_world[OF rl] obtain j3 where j3: "jobs w3 ?fid = Some j3"
    by (auto simp: progress_only_def)
  have qb: "\<forall>i. store_fault e (CreateMany i) = None" by (simp add: q)
  from batch_loop_quiet[where pd = pd and i = 0 and w = w3, OF qb] obtain w4 where
    bl: "batch_loop e pd 0 w3 = (Inr (), w4)" by (elim exE)
  from batch_loop_result[OF bl] j3 have j4: "jobs w4 ?fid = Some j3" by simp
  let ?w5 = "w4\<lparr>jobs := (jobs w4)(?fid \<mapsto>
      j3\<lparr>status := COMPLETED, processedRows := Some pc, completedAt := Some (now e)\<rparr>)\<rparr>"
  have s6: "fp_update e MarkCompleted ?fid
      (\<lambda>j. j\<lparr>status := COMPLETED, processedRows := Some pc, completedAt := Some (now e)\<rparr>) w4
      = Inr ?w5"
    by (rule fp_update_ok[OF q j4])
  from ne have ne0: "(length data = 0) = False" by simp
  have "handle_try e jd w = (Inr pc, ?w5)"
    unfolding handle_try_def Let_def
    by (simp only: s1 rd ne0 s3 rl bl s6 sum.case prod.case if_False)
  then show ?thesis by (intro exI)
qed

text \<open>
  C2, as amended. In an execution in which no collaborator raises, the handler raises the
  error with the message \<^verbatim>\<open>NO_DATA_FOUND\<close> exactly for a file with no row at all: then
  the job ends \<^verbatim>\<open>FAILED\<close> with this message, \<^verbatim>\<open>totalRows\<close> is left as it was and no
  record is inserted. For every file with at least one row the handler returns the
  number of rows minus the header row, and the job ends \<^verbatim>\<open>COMPLETED\<close> with
  \<^verbatim>\<open>totalRows\<close> and \<^verbatim>\<open>processedRows\<close> this number. In particular a file with a
  header row and no data row ends \<^verbatim>\<open>COMPLETED\<close> with \<^verbatim>\<open>totalRows\<close> and
  \<^verbatim>\<open>processedRows\<close> 0 and no record inserted.
\<close>

theorem no_data_only_without_header:
  assumes j: "jobs w (jd_fileProcessingId jd) = Some j"
    and quiet: "\<forall>s. store_fault e s = None"
    and rd: "read_sheet e (jd_fileUrl jd) = Inr data"
  shows "(data = [] \<longrightarrow>
           (\<exists>w' j'. handleExcelJob e jd w = (Inl (Error NO_DATA_FOUND), w')
              \<and> jobs w' (jd_fileProcessingId jd) = Some j' \<and> status j' = FAILED
              \<and> errorMessage j' = Some NO_DATA_FOUND \<and> totalRows j' = totalRows j
              \<and> records w' = records w))
       \<and> (data \<noteq> [] \<longrightarrow>
           (\<exists>w' j'. handleExcelJob e jd w = (Inr (length data - 1), w')
              \<and> jobs w' (jd_fileProcessingId jd) = Some j' \<and> status j' = COMPLETED
              \<and> totalRows j' = Some (length data - 1)
              \<and> processedRows j' = Some (length data - 1)
              \<and> completedAt j' = Some (now e) \<and> errorMessage j' = errorMessage j
              \<and> records w' = records w @
                   map (record_at (jd_fileProcessingId jd) (data ! 0) data)
                     (nonblank_cells (data ! 0) data)))
       \<and> (length data = 1 \<longrightarrow>
           (\<exists>w' j'. handleExcelJob e jd w = (Inr 0, w')
              \<and> jobs w' (jd_fileProcessingId jd) = Some j' \<and> status j' = COMPLETED
              \<and> totalRows j' = Some 0 \<and> processedRows j' = Some 0
              \<and> completedAt j' = Some (now e) \<and> records w' = records w))"
proof (intro conjI impI)
  assume "data = []"
  with j quiet rd show "\<exists>w' j'. handleExcelJob e jd w = (Inl (Error NO_DATA_FOUND), w')
      \<and> jobs w' (jd_fileProcessingId jd) = Some j' \<and> status j' = FAILED
      \<and> errorMessage j' = Some NO_DATA_FOUND \<and> totalRows j' = totalRows j
      \<and> records w' = records w"
    by (simp add: handleExcelJob_def handle_try_def fp_update_def)
next
  assume ne: "data \<noteq> []"
  from handle_try_quiet[OF j quiet rd ne] obtain n w' where
    ht: "handle_try e jd w = (Inr n, w')" by (elim exE)
  from handle_try_success[OF ht] obtain j0 data0 j' where
    j0: "jobs w (jd_fileProcessingId jd) = Some j0"
    and rd0: "read_sheet e (jd_fileUrl jd) = Inr data0"
    and n: "n = length data0 - 1"
    and recs: "records w' = records w @
        map (record_at (jd_fileProcessingId jd) (data0 ! 0) data0) (nonblank_cells (data0 ! 0) data0)"
    and j': "jobs w' (jd_fileProcessingId jd) = Some j'" "status j' = COMPLETED"
      "totalRows j' = Some (length data0 - 1)" "processedRows j' = Some (length data0 - 1)"
      "completedAt j' = Some (now e)" "errorMessage j' = errorMessage j0"
    by (elim exE conjE)
  from rd rd0 have d: "data0 = data" by simp
  from j j0 have jj: "j0 = j" by simp
  have h: "handleExcelJob e jd w = (Inr (length data - 1), w')"
    unfolding handleExcelJob_def using n d by (simp only: ht sum.case prod.case)
  show "\<exists>w' j'. handleExcelJob e jd w = (Inr (length data - 1), w')
      \<and> jobs w' (jd_fileProcessingId jd) = Some j' \<and> status j' = COMPLETED
      \<and> totalRows j' = Some (length data - 1)
      \<and> processedRows j' = Some (length data - 1)
      \<and> completedAt j' = Some (now e) \<and> errorMessage j' = errorMessage j
      \<and> records w' = records w @
           map (record_at (jd_fileProcessingId jd) (data ! 0) data)
             (nonblank_cells (data ! 0) data)"
    apply (rule exI[of _ w'], rule exI[of _ j'])
    using h j' recs d jj by simp
next
  assume "length data = 1"
  with j quiet rd show "\<exists>w' j'. handleExcelJob e jd w = (Inr 0, w')
      \<and> jobs w' (jd_fileProcessingId jd) = Some j' \<and> status j' = COMPLETED
      \<and> totalRows j' = Some 0 \<and> processedRows j' = Some 0
      \<and> completedAt j' = Some (now e) \<and> records w' = records w"
    by (simp add: handleExcelJob_def handle_try_def fp_update_def createMany_def
        row_loop.simps batch_loop.simps)
qed

theorem no_data_only_without_header_witness:
  "jobs w_pending (jd_fileProcessingId jd1) = Some job_pending
   \<and> (\<forall>s. store_fault (quiet_env []) s = None)
   \<and> read_sheet (quiet_env []) (jd_fileUrl jd1) = Inr []
   \<and> (\<exists>w' j'. handleExcelJob (quiet_env []) jd1 w_pending = (Inl (Error NO_DATA_FOUND), w')
        \<and> jobs w' (jd_fileProcessingId jd1) = Some j' \<and> status j' = FAILED
        \<and> errorMessage j' = Some NO_DATA_FOUND \<and> totalRows j' = totalRows job_pending
        \<and> records w' = records w_pending)
   \<and> (\<forall>s. store_fault (quiet_env sheet_header_only) s = None)
   \<and> read_sheet (quiet_env sheet_header_only) (jd_fileUrl jd1) = Inr sheet_header_only
   \<and> length sheet_header_only = 1
   \<and> (\<exists>w' j'. handleExcelJob (quiet_env sheet_header_only) jd1 w_pending = (Inr 0, w')
        \<and> jobs w' (jd_fileProcessingId jd1) = Some j' \<and> status j' = COMPLETED
        \<and> totalRows j' = Some 0 \<and> processedRows j' = Some 0
        \<and> completedAt j' = Some (now (quiet_env sheet_header_only))
        \<and> records w' = records w_pending)
   \<and> (\<forall>s. store_fault (quiet_env sheet_people) s = None)
   \<and> read_sheet (quiet_env sheet_people) (jd_fileUrl jd1) = Inr sheet_people
   \<and> sheet_people \<noteq> []
   \<and> (\<exists>w' j'. handleExcelJob (quiet_env sheet_people) jd1 w_pending
          = (Inr (length sheet_people - 1), w')
        \<and> jobs w' (jd_fileProcessingId jd1) = Some j' \<and> status j' = COMPLETED
        \<and> totalRows j' = Some (length sheet_people - 1)
        \<and> processedRows j' = Some (length sheet_people - 1)
        \<and> completedAt j' = Some (now (quiet_env sheet_people))
        \<and> errorMessage j' = errorMessage job_pending
        \<and> records w' = records w_pending @
             map (record_at (jd_fileProcessingId jd1) (sheet_people ! 0) sheet_people)
               (nonblank_cells (sheet_people ! 0) sheet_people))"
proof -
  have h1: "jobs w_pending (jd_fileProcessingId jd1) = Some job_pending"
    by (simp add: w_pending_def jd1_def)
  have q: "\<forall>s. store_fault (quiet_env d) s = None" for d
    by (simp add: quiet_env_def)
  have r: "read_sheet (quiet_env d) (jd_fileUrl jd1) = Inr d" for d
    by (simp add: quiet_env_def)
  have l: "length sheet_header_only = 1" by (simp add: sheet_header_only_def)
  have ne: "sheet_people \<noteq> []" by (simp add: sheet_people_def)
  note t = no_data_only_without_header[OF h1 q r]
  note a = t[of "[]", THEN conjunct1, THEN mp, OF refl]
  note b = t[of sheet_header_only, THEN conjunct2, THEN conjunct2, THEN mp, OF l]
  note c = t[of sheet_people, THEN conjunct2, THEN conjunct1, THEN mp, OF ne]
  from h1 q[of "[]"] r[of "[]"] a q[of sheet_header_only] r[of sheet_header_only] l b
    q[of sheet_people] r[of sheet_people] ne c
  show ?thesis by (intro conjI)
qed

text \<open>
  C4. The specification lets a job complete when a progress write raises. On a file with ten data
  rows, the execution in which the progress write after the tenth row raises ends with
  the error thrown again, the job \<^verbatim>\<open>FAILED\<close> and no record inserted, while the
  execution in which nothing raises returns and completes the job.
\<close>

theorem checkpoint_failure_counterexample:
  "fst (handleExcelJob (faulty_env sheet_ten_rows (Checkpoint 10) outage) jd1 w_pending)
     = Inl (Error ''Can not reach database server'')
   \<and> jobs (snd (handleExcelJob (faulty_env sheet_ten_rows (Checkpoint 10) outage) jd1 w_pending)) 1
     = Some job_checkpoint_failed
   \<and> records (snd (handleExcelJob (faulty_env sheet_ten_rows (Checkpoint 10) outage) jd1 w_pending))
     = []
   \<and> fst (handleExcelJob (quiet_env sheet_ten_rows) jd1 w_pending) = Inr 10
   \<and> map_option status (jobs (snd (handleExcelJob (quiet_env sheet_ten_rows) jd1 w_pending)) 1)
     = Some COMPLETED"
  by code_simp

text \<open>
  C4, as amended. A progress write that raises aborts the extraction. When the job
  exists, the sheet has at least \<open>10 * m\<close> data rows for some \<open>m > 0\<close>, the progress
  write after row \<open>10 * m\<close> raises, and the writes of \<^verbatim>\<open>IN_PROGRESS\<close>, of
  \<^verbatim>\<open>totalRows\<close> and of \<^verbatim>\<open>FAILED\<close> do not raise, the handler throws, the job ends
  \<^verbatim>\<open>FAILED\<close> with the message of the thrown error, its \<^verbatim>\<open>completedAt\<close> is left as
  it was, and no record is inserted.
\<close>

theorem checkpoint_failure_fails_job:
  assumes j: "jobs w (jd_fileProcessingId jd) = Some j"
    and f1: "store_fault e SetInProgress = None"
    and f2: "store_fault e SetTotalRows = None"
    and f3: "store_fault e MarkFailed = None"
    and rd: "read_sheet e (jd_fileUrl jd) = Inr data"
    and m: "0 < m" "10 * m < length data"
    and cp: "store_fault e (Checkpoint (10 * m)) \<noteq> None"
  shows "\<exists>t w' j'. handleExcelJob e jd w = (Inl t, w')
      \<and> jobs w' (jd_fileProcessingId jd) = Some j' \<and> status j' = FAILED
      \<and> errorMessage j' = Some (error_message t) \<and> completedAt j' = completedAt j
      \<and> records w' = records w"
proof -
  let ?fid = "jd_fileProcessingId jd"
  let ?rc = "case jd_retryCount jd of None \<Rightarrow> 0 | Some n \<Rightarrow> n"
  let ?j1 = "j\<lparr>status := IN_PROGRESS, retryCount := ?rc\<rparr>"
  let ?w1 = "w\<lparr>jobs := (jobs w)(?fid \<mapsto> ?j1)\<rparr>"
  let ?j2 = "?j1\<lparr>totalRows := Some (length data - 1)\<rparr>"
  let ?w2 = "?w1\<lparr>jobs := (jobs ?w1)(?fid \<mapsto> ?j2)\<rparr>"
  have s1: "fp_update e SetInProgress ?fid (\<lambda>j. j\<lparr>status := IN_PROGRESS, retryCount := ?rc\<rparr>) w
      = Inr ?w1"
    by (rule fp_update_ok[OF f1 j])
  have j1: "jobs ?w1 ?fid = Some ?j1" by simp
  have s3: "fp_update e SetTotalRows ?fid (\<lambda>j. j\<lparr>totalRows := Some (length data - 1)\<rparr>) ?w1
      = Inr ?w2"
    by (rule fp_update_ok[OF f2 j1])
  from m have ne: "data \<noteq> []" by auto
  from m cp have "\<exists>n. 0 < n \<and> n \<le> 0 + (length data - 1) \<and> n mod 10 = 0
      \<and> store_fault e (Checkpoint n) \<noteq> None"
    by (intro exI[of _ "10 * m"]) simp
  from row_loop_checkpoint_raises[where fid = ?fid and headers = "data ! 0" and pd = "[]"
      and w = ?w2, OF this] obtain t w3 where
    rl: "row_loop e ?fid (data ! 0) data 1 [] 0 ?w2 = (Inl t, w3)"
    by (elim exE)
  from row_loop_world[OF rl] obtain p where
    r3: "records w3 = records w" and j3: "jobs w3 ?fid = Some (?j2\<lparr>processedRows := p\<rparr>)"
    by (auto simp: progress_only_def)
  from ne have ne0: "(length data = 0) = False" by simp
  have ht: "handle_try e jd w = (Inl t, w3)"
    unfolding handle_try_def Let_def
    by (simp only: s1 rd ne0 s3 rl sum.case prod.case if_False)
  let ?j' = "?j2\<lparr>processedRows := p\<rparr>\<lparr>status := FAILED, errorMessage := Some (error_message t)\<rparr>"
  let ?w' = "w3\<lparr>jobs := (jobs w3)(?fid \<mapsto> ?j')\<rparr>"
  have s7: "fp_update e MarkFailed ?fid
      (\<lambda>j. j\<lparr>status := FAILED, errorMessage := Some (error_message t)\<rparr>) w3 = Inr ?w'"
    by (rule fp_update_ok[OF f3 j3])
  have h: "handleExcelJob e jd w = (Inl t, ?w')"
    unfolding handleExcelJob_def by (simp only: ht s7 sum.case prod.case)
  show ?thesis
    apply (rule exI[of _ t], rule exI[of _ ?w'], rule exI[of _ ?j'])
    using h r3 by simp
qed

theorem checkpoint_failure_fails_job_witness:
  "jobs w_pending (jd_fileProcessingId jd1) = Some job_pending
   \<and> store_fault (faulty_env sheet_ten_rows (Checkpoint 10) outage) SetInProgress = None
   \<and> store_fault (faulty_env sheet_ten_rows (Checkpoint 10) outage) SetTotalRows = None
   \<and> store_fault (faulty_env sheet_ten_rows (Checkpoint 10) outage) MarkFailed = None
   \<and> read_sheet (faulty_env sheet_ten_rows (Checkpoint 10) outage) (jd_fileUrl jd1)
       = Inr sheet_ten_rows
   \<and> (0::nat) < 1 \<and> 10 * 1 < length sheet_ten_rows
   \<and> store_fault (faulty_env sheet_ten_rows (Checkpoint 10) outage) (Checkpoint (10 * 1)) \<noteq> None
   \<and> (\<exists>t w' j'. handleExcelJob (faulty_env sheet_ten_rows (Checkpoint 10) outage) jd1 w_pending
          = (Inl t, w')
        \<and> jobs w' (jd_fileProcessingId jd1) = Some j' \<and> status j' = FAILED
        \<and> errorMessage j' = Some (error_message t) \<and> completedAt j' = completedAt job_pending
        \<and> records w' = records w_pending)"
proof -
  let ?e = "faulty_env sheet_ten_rows (Checkpoint 10) outage"
  have h1: "jobs w_pending (jd_fileProcessingId jd1) = Some job_pending"
    by (simp add: w_pending_def jd1_def)
  have f1: "store_fault ?e SetInProgress = None" by (simp add: faulty_env_def)
  have f2: "store_fault ?e SetTotalRows = None" by (simp add: faulty_env_def)
  have f3: "store_fault ?e MarkFailed = None" by (simp add: faulty_env_def)
  have rd: "read_sheet ?e (jd_fileUrl jd1) = Inr sheet_ten_rows" by (simp add: faulty_env_def)
  have m1: "(0::nat) < 1" by simp
  have m2: "10 * 1 < length sheet_ten_rows" by (simp add: sheet_ten_rows_def)
  have cp: "store_fault ?e (Checkpoint (10 * 1)) \<noteq> None" by (simp add: faulty_env_def)
  from checkpoint_failure_fails_job[OF h1 f1 f2 f3 rd m1 m2 cp] h1 f1 f2 f3 rd m1 m2 cp
  show ?thesis by (simp only: simp_thms)
qed

text \<open>
  C3. The job whose first delivery fails and whose second delivery completes keeps the
  first delivery's error message: the first execution, in which the batch insert raises,
  leaves the job \<^verbatim>\<open>FAILED\<close> with the message set; the second execution, in which nothing
  raises, leaves it \<^verbatim>\<open>COMPLETED\<close> with the same message.
\<close>

theorem stale_errorMessage_after_redelivery:
  "handleExcelJob (faulty_env sheet_people (CreateMany 0) outage) jd1 w_pending
     = (Inl outage, w_outage)
   \<and> handleExcelJob (quiet_env sheet_people) jd1 w_outage = (Inr 2, w_stale_error)
   \<and> map_option status (jobs w_stale_error 1) = Some COMPLETED
   \<and> map_option errorMessage (jobs w_stale_error 1) = Some (Some ''Can not reach database server'')"
  by (simp add: run_simps sheet_people_def people_records_def outage_def w_outage_def
      w_stale_error_def numeral_2_eq_2)

text \<open>
  C1. Two executions of the handler on the same job store the same record twice: the
  first execution inserts the record and then fails at its final update, the second
  inserts it again, and the pairs of row number and column name of the job's records are
  no longer distinct.
\<close>

theorem duplicate_records_after_redelivery:
  "handleExcelJob (faulty_env sheet_one_cell MarkCompleted outage) jd1 w_pending
     = (Inl outage, w_flushed)
   \<and> handleExcelJob (quiet_env sheet_one_cell) jd1 w_flushed = (Inr 1, w_duplicated)
   \<and> map (\<lambda>r. (rowNumber r, columnName r)) (records w_duplicated)
       = [(2, JString ''A''), (2, JString ''A'')]
   \<and> \<not> distinct (map (\<lambda>r. (rowNumber r, columnName r)) (records w_duplicated))"
  by (simp add: run_simps sheet_one_cell_def one_cell_record_def outage_def w_flushed_def
      w_duplicated_def)

section \<open>Retry\<close>

lemma findFirst_Some:
  "findFirst e site fid uid w = Inr (Some j) \<Longrightarrow> jobs w fid = Some j \<and> userId j = uid"
  by (auto simp: findFirst_def split: option.splits if_splits)

lemma findFirst_unowned:
  "\<forall>j. jobs w fid = Some j \<longrightarrow> status j \<noteq> FAILED \<Longrightarrow>
     findFirst e site fid uid w = Inr (Some j) \<Longrightarrow> status j \<noteq> FAILED"
  by (auto dest: findFirst_Some)

lemma clearProcessedData_Inr:
  "clearProcessedData e fid uid w = (Inr u, w1) \<Longrightarrow>
     w1 = w\<lparr>records := filter (\<lambda>r. fileProcessingId r \<noteq> fid) (records w)\<rparr>"
  by (auto simp: clearProcessedData_def split: sum.splits option.splits)

lemma retryFileProcessing_Inr:
  assumes "retryFileProcessing e fid uid w = (Inr (jobId, fid'), w2)"
  shows "\<exists>j. jobs w fid = Some j \<and> userId j = uid \<and> fid' = fid \<and> jobId = length (queue w) + 1
     \<and> w2 = w\<lparr>jobs := (jobs w)(fid \<mapsto> j\<lparr>status := PENDING, errorMessage := None,
                     totalRows := None, processedRows := None, completedAt := None\<rparr>),
              queue := queue w @ [(''process-excel-retry'',
                 \<lparr>jd_fileUrl = fileUrl j, jd_fileProcessingId = fid, jd_retryCount = None\<rparr>)]\<rparr>"
proof (cases "findFirst e RetryFindFirst fid uid w")
  case (Inl t)
  with assms show ?thesis by (simp add: retryFileProcessing_def)
next
  case (Inr found)
  show ?thesis
  proof (cases found)
    case None
    with assms Inr show ?thesis by (simp add: retryFileProcessing_def)
  next
    case (Some j)
    from findFirst_Some[OF Inr[unfolded Some]] have j: "jobs w fid = Some j" "userId j = uid"
      by simp_all
    let ?w1 = "w\<lparr>jobs := (jobs w)(fid \<mapsto> j\<lparr>status := PENDING, errorMessage := None,
                     totalRows := None, processedRows := None, completedAt := None\<rparr>)\<rparr>"
    show ?thesis
    proof (cases "store_fault e ResetPending")
      case (Some t)
      with assms Inr \<open>found = Some j\<close> show ?thesis
        by (simp add: retryFileProcessing_def fp_update_def)
    next
      case None
      note up = fp_update_ok[OF None j(1)]
      show ?thesis
      proof (cases "store_fault e AddJob")
        case (Some t)
        with assms Inr \<open>found = Some j\<close> up show ?thesis
          by (simp add: retryFileProcessing_def addJob_def)
      next
        case None
        with assms Inr \<open>found = Some j\<close> up have
          "jobId = length (queue w) + 1 \<and> fid' = fid
           \<and> w2 = ?w1\<lparr>queue := queue ?w1 @ [(''process-excel-retry'',
                 \<lparr>jd_fileUrl = fileUrl j, jd_fileProcessingId = fid, jd_retryCount = None\<rparr>)]\<rparr>"
          by (auto simp: retryFileProcessing_def addJob_def)
        with j show ?thesis by (intro exI[of _ j]) simp
      qed
    qed
  qed
qed

text \<open>
  C9. The retry operation answers with success only for a job of the requesting user whose
  status is \<^verbatim>\<open>FAILED\<close>; after a success the job's records are deleted, the job has
  status \<^verbatim>\<open>PENDING\<close> and no \<^verbatim>\<open>totalRows\<close>, \<^verbatim>\<open>processedRows\<close>, \<^verbatim>\<open>errorMessage\<close>
  or \<^verbatim>\<open>completedAt\<close>, and one job for the file is added to the queue. When the job
  has another status (or is missing) the answer is an error and the store and the queue
  are as before.
\<close>

theorem retry_only_from_failed:
  assumes "retryFileProcessing_controller e req w = (resp, w')"
  shows "(resp = ResponseSuccess jobId fid \<longrightarrow>
           (\<exists>uid j. user req = Some uid \<and> jobs w (params_id req) = Some j \<and> userId j = uid
              \<and> status j = FAILED \<and> fid = params_id req \<and> jobId = length (queue w) + 1
              \<and> records w' = filter (\<lambda>r. fileProcessingId r \<noteq> params_id req) (records w)
              \<and> jobs w' = (jobs w)(params_id req \<mapsto>
                    j\<lparr>status := PENDING, errorMessage := None, totalRows := None,
                      processedRows := None, completedAt := None\<rparr>)
              \<and> queue w' = queue w @ [(''process-excel-retry'',
                    \<lparr>jd_fileUrl = fileUrl j, jd_fileProcessingId = params_id req,
                     jd_retryCount = None\<rparr>)]))
       \<and> ((\<forall>j. jobs w (params_id req) = Some j \<longrightarrow> status j \<noteq> FAILED) \<longrightarrow>
            (\<exists>code msg. resp = JsonError code msg) \<and> w' = w)"
proof (rule conjI; rule impI)
  assume ok: "resp = ResponseSuccess jobId fid"
  with assms obtain uid fs u w1 where
    usr: "user req = Some uid"
    and gs: "getFileStatus e (params_id req) uid w = Inr (Some fs)"
    and st: "status fs = FAILED"
    and cl: "clearProcessedData e (params_id req) uid w = (Inr u, w1)"
    and rt: "retryFileProcessing e (params_id req) uid w1 = (Inr (jobId, fid), w')"
    unfolding retryFileProcessing_controller_def
    by (auto split: option.splits sum.splits prod.splits if_splits)
  from gs have "findFirst e StatusFindFirst (params_id req) uid w = Inr (Some fs)"
    by (auto simp: getFileStatus_def split: sum.splits option.splits)
  from findFirst_Some[OF this] have fs: "jobs w (params_id req) = Some fs" "userId fs = uid"
    by simp_all
  from clearProcessedData_Inr[OF cl] have
    w1: "w1 = w\<lparr>records := filter (\<lambda>r. fileProcessingId r \<noteq> params_id req) (records w)\<rparr>" .
  from retryFileProcessing_Inr[OF rt] w1 fs obtain
    r: "fid = params_id req" "jobId = length (queue w) + 1"
    "w' = w1\<lparr>jobs := (jobs w1)(params_id req \<mapsto> fs\<lparr>status := PENDING, errorMessage := None,
                     totalRows := None, processedRows := None, completedAt := None\<rparr>),
              queue := queue w1 @ [(''process-excel-retry'',
                 \<lparr>jd_fileUrl = fileUrl fs, jd_fileProcessingId = params_id req,
                  jd_retryCount = None\<rparr>)]\<rparr>"
    by auto
  show "\<exists>uid j. user req = Some uid \<and> jobs w (params_id req) = Some j \<and> userId j = uid
              \<and> status j = FAILED \<and> fid = params_id req \<and> jobId = length (queue w) + 1
              \<and> records w' = filter (\<lambda>r. fileProcessingId r \<noteq> params_id req) (records w)
              \<and> jobs w' = (jobs w)(params_id req \<mapsto>
                    j\<lparr>status := PENDING, errorMessage := None, totalRows := None,
                      processedRows := None, completedAt := None\<rparr>)
              \<and> queue w' = queue w @ [(''process-excel-retry'',
                    \<lparr>jd_fileUrl = fileUrl j, jd_fileProcessingId = params_id req,
                     jd_retryCount = None\<rparr>)]"
    apply (rule exI[of _ uid], rule exI[of _ fs])
    using usr fs st r w1 by simp
next
  assume nf: "\<forall>j. jobs w (params_id req) = Some j \<longrightarrow> status j \<noteq> FAILED"
  have no: "status fs \<noteq> FAILED" if "getFileStatus e (params_id req) uid w = Inr (Some fs)"
    for uid fs
  proof -
    from that have "findFirst e StatusFindFirst (params_id req) uid w = Inr (Some fs)"
      by (auto simp: getFileStatus_def split: sum.splits option.splits)
    from findFirst_unowned[OF nf this] show ?thesis .
  qed
  from assms no show "(\<exists>code msg. resp = JsonError code msg) \<and> w' = w"
    unfolding retryFileProcessing_controller_def
    by (auto split: option.splits sum.splits prod.splits if_splits)
qed

lemma retry_failed_run:
  "retryFileProcessing_controller (quiet_env sheet_people) req1 w_failed
     = (ResponseSuccess 1 1, w_retried)"
  by (simp add: retryFileProcessing_controller_def getFileStatus_def clearProcessedData_def
      retryFileProcessing_def addJob_def findFirst_def fp_update_def quiet_env_def req1_def
      w_failed_def job_failed_def stale_record_def w_retried_def)

lemma retry_completed_run:
  "retryFileProcessing_controller (quiet_env sheet_people) req1 w_completed
     = (JsonError 400 ''File can only be retried if it failed'', w_completed)"
  by (simp add: retryFileProcessing_controller_def getFileStatus_def findFirst_def
      quiet_env_def req1_def w_completed_def job_failed_def)

theorem retry_only_from_failed_witness:
  "retryFileProcessing_controller (quiet_env sheet_people) req1 w_failed
     = (ResponseSuccess 1 1, w_retried)
   \<and> (\<exists>uid j. user req1 = Some uid \<and> jobs w_failed (params_id req1) = Some j \<and> userId j = uid
        \<and> status j = FAILED \<and> (1::nat) = params_id req1 \<and> (1::nat) = length (queue w_failed) + 1
        \<and> records w_retried = filter (\<lambda>r. fileProcessingId r \<noteq> params_id req1) (records w_failed)
        \<and> jobs w_retried = (jobs w_failed)(params_id req1 \<mapsto>
              j\<lparr>status := PENDING, errorMessage := None, totalRows := None,
                processedRows := None, completedAt := None\<rparr>)
        \<and> queue w_retried = queue w_failed @ [(''process-excel-retry'',
              \<lparr>jd_fileUrl = fileUrl j, jd_fileProcessingId = params_id req1,
               jd_retryCount = None\<rparr>)])
   \<and> retryFileProcessing_controller (quiet_env sheet_people) req1 w_completed
     = (JsonError 400 ''File can only be retried if it failed'', w_completed)
   \<and> map_option status (jobs w_completed (params_id req1)) = Some COMPLETED
   \<and> (\<exists>code msg. JsonError 400 ''File can only be retried if it failed'' = JsonError code msg)"
proof -
  have nf: "\<forall>j. jobs w_completed (params_id req1) = Some j \<longrightarrow> status j \<noteq> FAILED"
    by (simp add: w_completed_def req1_def job_failed_def)
  from retry_only_from_failed[OF retry_failed_run, of 1 1] have a:
    "\<exists>uid j. user req1 = Some uid \<and> jobs w_failed (params_id req1) = Some j \<and> userId j = uid
        \<and> status j = FAILED \<and> (1::nat) = params_id req1 \<and> (1::nat) = length (queue w_failed) + 1
        \<and> records w_retried = filter (\<lambda>r. fileProcessingId r \<noteq> params_id req1) (records w_failed)
        \<and> jobs w_retried = (jobs w_failed)(params_id req1 \<mapsto>
              j\<lparr>status := PENDING, errorMessage := None, totalRows := None,
                processedRows := None, completedAt := None\<rparr>)
        \<and> queue w_retried = queue w_failed @ [(''process-excel-retry'',
              \<lparr>jd_fileUrl = fileUrl j, jd_fileProcessingId = params_id req1,
               jd_retryCount = None\<rparr>)]"
    by (simp only: simp_thms)
  have b:
    "\<exists>code msg. JsonError 400 ''File can only be retried if it failed'' = JsonError code msg"
    by (rule retry_only_from_failed[OF retry_completed_run, THEN conjunct2, THEN mp, OF nf,
          THEN conjunct1])
  have c: "map_option status (jobs w_completed (params_id req1)) = Some COMPLETED"
    by (simp add: w_completed_def req1_def job_failed_def)
  from a b c retry_failed_run retry_completed_run show ?thesis by (simp only: simp_thms)
qed

end
